theory Spec2Isabelle
  imports Complex_Main
begin

section \<open>Values of \<^verbatim>\<open>chandra/model/hf.py\<close>\<close>

text \<open>
  An exception of the Python program is a value: \<open>KeyError k\<close> is the failed dictionary
  lookup of key \<open>k\<close>, \<open>Raised msg\<close> is any exception that a call into the model library
  (transformers, torch, qwen_vl_utils) raises. A function that can raise returns
  \<open>exn + result\<close>, with \<open>Inl\<close> for the exception.
\<close>

datatype 'k exn = KeyError 'k | Raised string

text \<open>
  A raster image as the program sees it: its size in pixels and its pixel data, which the
  program never inspects.
\<close>

record 'p pil_image =
  width :: nat
  height :: nat
  pixels :: 'p

text \<open>
  \<^verbatim>\<open>BatchInputItem\<close> (declared in \<^verbatim>\<open>chandra/model/schema.py\<close>, read here through
  the three fields that \<^verbatim>\<open>process_batch_element\<close> uses). The prompt is optional text; the
  type of the registry key \<open>prompt_type\<close> is left open.
\<close>

record ('p, 'k) BatchInputItem =
  item_image :: "'p pil_image"
  prompt :: "string option"
  prompt_type :: 'k

text \<open>\<^verbatim>\<open>GenerationResult(raw=..., token_count=..., error=...)\<close>.\<close>

record GenerationResult =
  raw :: string
  token_count :: nat
  error :: bool

text \<open>
  A chat message \<^verbatim>\<open>{"role": ..., "content": [...]}\<close>; a content block is
  \<^verbatim>\<open>{"type": "image", "image": img}\<close> or \<^verbatim>\<open>{"type": "text", "text": s}\<close>.
\<close>

datatype 'p block = ImageBlock "'p pil_image" | TextBlock string

record 'p message =
  role :: string
  content :: "'p block list"

section \<open>Python built-ins\<close>

text \<open>Truth value of an optional string: \<^verbatim>\<open>None\<close> and \<^verbatim>\<open>""\<close> are false.\<close>

fun truthy :: "string option \<Rightarrow> bool" where
  "truthy None = False"
| "truthy (Some s) = (s \<noteq> [])"

text \<open>
  \<^verbatim>\<open>s.replace(old, new)\<close>: the occurrences of \<open>old\<close> are found from the left and do not
  overlap; with an empty \<open>old\<close>, \<open>new\<close> is put before every character and at the end.
\<close>

function py_replace :: "string \<Rightarrow> string \<Rightarrow> string \<Rightarrow> string" where
  "py_replace old new [] = (if old = [] then new else [])"
| "py_replace old new (c # cs) =
     (if old = [] then new @ c # py_replace old new cs
      else if take (length old) (c # cs) = old
        then new @ py_replace old new (drop (length old) (c # cs))
      else c # py_replace old new cs)"
  by pat_completeness auto
termination
  by (relation "measure (\<lambda>(old, new, s). length s)") auto

text \<open>
  \<^verbatim>\<open>sep.join(pieces)\<close>. It is not called by the program; it says what \<^verbatim>\<open>replace\<close>
  computes: the pieces between the occurrences of \<open>old\<close>, joined by \<open>new\<close>.
\<close>

fun py_join :: "string \<Rightarrow> string list \<Rightarrow> string" where
  "py_join sep [] = []"
| "py_join sep [p] = p"
| "py_join sep (p # q # ps) = p @ sep @ py_join sep (q # ps)"

text \<open>\<^verbatim>\<open>str(n)\<close> of an integer: decimal digits, a minus sign for a negative number.\<close>

definition digit_char :: "nat \<Rightarrow> char" where
  "digit_char d = ''0123456789'' ! d"

fun digits :: "nat \<Rightarrow> string" where
  "digits n = (if n < 10 then [digit_char n] else digits (n div 10) @ [digit_char (n mod 10)])"

definition py_str :: "int \<Rightarrow> string" where
  "py_str i = (if i < 0 then CHR ''-'' # digits (nat (- i)) else digits (nat i))"

text \<open>
  A list comprehension \<^verbatim>\<open>[f(x) for x in xs]\<close> whose body can raise: the first exception
  ends it, and no list is built.
\<close>

fun comprehension :: "('a \<Rightarrow> 'e + 'b) \<Rightarrow> 'a list \<Rightarrow> 'e + 'b list" where
  "comprehension f [] = Inr []"
| "comprehension f (x # xs) =
     (case f x of
        Inl e \<Rightarrow> Inl e
      | Inr y \<Rightarrow> (case comprehension f xs of Inl e \<Rightarrow> Inl e | Inr ys \<Rightarrow> Inr (y # ys)))"

declare digits.simps [simp del]

section \<open>Collaborators that are not in this file\<close>

text \<open>
  Modelled from the spec: \<^verbatim>\<open>scale_to_fit(image, max_size)\<close> of \<^verbatim>\<open>chandra/model/util.py\<close>
  is not among the sources. The specification says that it downscales (never upscales) the
  image so that neither dimension exceeds the cap, preserving the aspect ratio within
  rounding, and that an image already within the bounds is returned unchanged. The
  specification does not fix the rounding, so it is a parameter; so is the resampling of the
  pixel data.
\<close>

datatype rounding = RoundDown | RoundUp | RoundNearest

fun round_div :: "rounding \<Rightarrow> nat \<Rightarrow> nat \<Rightarrow> nat" where
  "round_div RoundDown n d = n div d"
| "round_div RoundUp n d = (n + d - 1) div d"
| "round_div RoundNearest n d = (2 * n + d) div (2 * d)"

definition resize :: "('p \<Rightarrow> nat \<times> nat \<Rightarrow> 'p) \<Rightarrow> 'p pil_image \<Rightarrow> nat \<times> nat \<Rightarrow> 'p pil_image" where
  "resize resample img sz =
     \<lparr>width = fst sz, height = snd sz, pixels = resample (pixels img) sz\<rparr>"

definition scale_to_fit ::
  "rounding \<Rightarrow> ('p \<Rightarrow> nat \<times> nat \<Rightarrow> 'p) \<Rightarrow> 'p pil_image \<Rightarrow> nat \<times> nat \<Rightarrow> 'p pil_image" where
  "scale_to_fit rnd resample img max_size =
     (let max_width = fst max_size; max_height = snd max_size in
      if width img \<le> max_width \<and> height img \<le> max_height then img
      else if max_width * height img \<le> max_height * width img
        then resize resample img
               (max_width, round_div rnd (height img * max_width) (width img))
      else resize resample img
               (round_div rnd (width img * max_height) (height img), max_height))"

text \<open>
  \<^verbatim>\<open>settings\<close> (\<^verbatim>\<open>chandra/settings.py\<close>): the fields this file reads. A device or an attention
  backend that is \<^verbatim>\<open>None\<close> or empty is not configured.
\<close>

record settings =
  MODEL_CHECKPOINT :: string
  MAX_OUTPUT_TOKENS :: nat
  BBOX_SCALE :: int
  TORCH_DEVICE :: "string option"
  TORCH_ATTN :: "string option"
  USE_8BIT_QUANTIZATION :: bool

text \<open>
  The tokenized batch that the processor returns: \<open>input_ids\<close> has one row of token ids
  per sequence; the other tensors are carried along unread.
\<close>

record 'x inputs =
  input_ids :: "nat list list"
  tensors :: 'x

text \<open>
  What \<^verbatim>\<open>generate_hf\<close> and \<^verbatim>\<open>process_batch_element\<close> reach outside their arguments: the
  prompt registry \<^verbatim>\<open>PROMPT_MAPPING\<close> (\<^verbatim>\<open>chandra/prompts.py\<close>), the settings, the rounding
  and resampling of \<^verbatim>\<open>scale_to_fit\<close>, \<^verbatim>\<open>process_vision_info\<close> of qwen_vl_utils (its
  first component), and the method \<^verbatim>\<open>inputs.to(device)\<close>.
\<close>

record ('p, 'k, 'v, 'x) globals =
  PROMPT_MAPPING :: "'k \<rightharpoonup> string"
  the_settings :: settings
  rounding_mode :: rounding
  resample :: "'p \<Rightarrow> nat \<times> nat \<Rightarrow> 'p"
  process_vision_info :: "'p message list \<Rightarrow> 'k exn + 'v"
  inputs_to :: "'x inputs \<Rightarrow> string \<Rightarrow> 'k exn + 'x inputs"

text \<open>
  The model handle \<^verbatim>\<open>model\<close>: the methods of \<^verbatim>\<open>model.processor\<close> that are called
  (\<^verbatim>\<open>apply_chat_template\<close>, the processor call itself, \<^verbatim>\<open>batch_decode\<close>) and
  \<^verbatim>\<open>model.generate\<close>. They are code of the model library; each can raise.
\<close>

record ('p, 'k, 't, 'v, 'x) model =
  apply_chat_template :: "'p message list \<Rightarrow> 'k exn + 't"
  processor_call :: "'t \<Rightarrow> 'v \<Rightarrow> 'k exn + 'x inputs"
  generate :: "'x inputs \<Rightarrow> nat \<Rightarrow> 'k exn + nat list list"
  batch_decode :: "nat list list \<Rightarrow> 'k exn + string list"

section \<open>The functions of \<^verbatim>\<open>hf.py\<close>\<close>

text \<open>\<^verbatim>\<open>PROMPT_MAPPING[prompt_type]\<close>.\<close>

definition lookup :: "('k \<rightharpoonup> string) \<Rightarrow> 'k \<Rightarrow> 'k exn + string" where
  "lookup d k = (case d k of None \<Rightarrow> Inl (KeyError k) | Some v \<Rightarrow> Inr v)"

definition process_batch_element ::
  "('p, 'k, 'v, 'x) globals \<Rightarrow> ('p, 'k) BatchInputItem \<Rightarrow> int \<Rightarrow> 'k exn + 'p message" where
  "process_batch_element g item bbox_scale =
     (case (if \<not> truthy (prompt item)
            then (case lookup (PROMPT_MAPPING g) (prompt_type item) of
                    Inl e \<Rightarrow> Inl e
                  | Inr template \<Rightarrow>
                      Inr (py_replace ''{bbox_scale}'' (py_str bbox_scale) template))
            else Inr (the (prompt item))) of
        Inl e \<Rightarrow> Inl e
      | Inr prompt_text \<Rightarrow>
          (let image = scale_to_fit (rounding_mode g) (resample g) (item_image item) (1536, 1024)
           in Inr \<lparr>role = ''user'', content = [ImageBlock image, TextBlock prompt_text]\<rparr>))"

text \<open>
  The slice \<^verbatim>\<open>out_ids[len(in_ids):]\<close> of every pair of \<^verbatim>\<open>zip(inputs.input_ids,
  generated_ids)\<close>; \<^verbatim>\<open>zip\<close> stops with the shorter sequence.
\<close>

definition trim_generated :: "nat list list \<Rightarrow> nat list list \<Rightarrow> nat list list" where
  "trim_generated in_rows out_rows =
     map (\<lambda>(in_ids, out_ids). drop (length in_ids) out_ids) (zip in_rows out_rows)"

definition wrap_results :: "string list \<Rightarrow> nat list list \<Rightarrow> GenerationResult list" where
  "wrap_results output_text generated_ids_trimmed =
     map (\<lambda>(out, ids). \<lparr>raw = out, token_count = length ids, error = False\<rparr>)
       (zip output_text generated_ids_trimmed)"

text \<open>
  \<^verbatim>\<open>generate_hf(batch, model, max_output_tokens, bbox_scale)\<close>. The argument
  \<open>bbox_scale\<close> is the caller's value or the default \<^verbatim>\<open>settings.BBOX_SCALE\<close>; the
  keyword arguments \<^verbatim>\<open>**kwargs\<close> are never read.
\<close>

definition generate_hf ::
  "('p, 'k, 'v, 'x) globals \<Rightarrow> ('p, 'k) BatchInputItem list \<Rightarrow> ('p, 'k, 't, 'v, 'x) model \<Rightarrow>
     nat option \<Rightarrow> int \<Rightarrow> 'k exn + GenerationResult list" where
  "generate_hf g batch m max_output_tokens bbox_scale =
     (let max_new_tokens =
            (case max_output_tokens of
               None \<Rightarrow> MAX_OUTPUT_TOKENS (the_settings g)
             | Some n \<Rightarrow> n)
      in
      case comprehension (\<lambda>item. process_batch_element g item bbox_scale) batch of
        Inl e \<Rightarrow> Inl e
      | Inr messages \<Rightarrow>
      (case apply_chat_template m messages of
        Inl e \<Rightarrow> Inl e
      | Inr text \<Rightarrow>
      (case process_vision_info g messages of
        Inl e \<Rightarrow> Inl e
      | Inr image_inputs \<Rightarrow>
      (case processor_call m text image_inputs of
        Inl e \<Rightarrow> Inl e
      | Inr inputs0 \<Rightarrow>
      (case inputs_to g inputs0 ''cuda'' of
        Inl e \<Rightarrow> Inl e
      | Inr inputs \<Rightarrow>
      (case generate m inputs max_new_tokens of
        Inl e \<Rightarrow> Inl e
      | Inr generated_ids \<Rightarrow>
      (let generated_ids_trimmed = trim_generated (input_ids inputs) generated_ids in
       case batch_decode m generated_ids_trimmed of
        Inl e \<Rightarrow> Inl e
      | Inr output_text \<Rightarrow> Inr (wrap_results output_text generated_ids_trimmed))))))))"

subsection \<open>\<^verbatim>\<open>load_model\<close>\<close>

text \<open>
  The keyword arguments that \<^verbatim>\<open>load_model\<close> collects for \<^verbatim>\<open>from_pretrained\<close>: a dictionary
  from names to values. The threshold \<^verbatim>\<open>6.0\<close> is kept as the number it denotes.
\<close>

datatype torch_dtype = float32 | float16

record BitsAndBytesConfig =
  load_in_8bit :: bool
  llm_int8_threshold :: rat
  llm_int8_has_fp16_weight :: bool

datatype dict_key = IntKey int | StrKey string

datatype kwarg_value =
    StrValue string
  | BoolValue bool
  | DictValue "(dict_key \<times> string) list"
  | DtypeValue torch_dtype
  | QuantizationValue BitsAndBytesConfig

text \<open>
  Lines 77 to 103 of \<^verbatim>\<open>load_model\<close>; \<open>cuda_is_available\<close> is the value of
  \<^verbatim>\<open>torch.cuda.is_available()\<close>.
\<close>

definition load_model_kwargs :: "settings \<Rightarrow> bool \<Rightarrow> (string \<rightharpoonup> kwarg_value)" where
  "load_model_kwargs s cuda_is_available =
     (let device_map =
            (if truthy (TORCH_DEVICE s)
             then DictValue [(StrKey [], the (TORCH_DEVICE s))]
             else StrValue ''auto'');
          dtype = float32;
          kwargs0 =
            [''device_map'' \<mapsto> device_map,
             ''max_memory'' \<mapsto> DictValue [(IntKey 0, ''11GiB''), (StrKey ''cpu'', ''60GiB'')],
             ''offload_state_dict'' \<mapsto> BoolValue True];
          kwargs1 =
            (if USE_8BIT_QUANTIZATION s \<and> cuda_is_available
             then kwargs0
                    (''quantization_config'' \<mapsto>
                       QuantizationValue
                         \<lparr>load_in_8bit = True, llm_int8_threshold = 6,
                          llm_int8_has_fp16_weight = False\<rparr>,
                     ''torch_dtype'' \<mapsto> DtypeValue float16)
             else kwargs0(''dtype'' \<mapsto> DtypeValue dtype))
      in if truthy (TORCH_ATTN s)
         then kwargs1(''attn_implementation'' \<mapsto> StrValue (the (TORCH_ATTN s)))
         else kwargs1)"

text \<open>
  The library calls of \<^verbatim>\<open>load_model\<close>: \<^verbatim>\<open>torch.cuda.is_available\<close>, the two
  \<^verbatim>\<open>from_pretrained\<close> constructors and \<^verbatim>\<open>model.eval\<close>. The handle returned is the model in
  evaluation mode with its processor attached.
\<close>

record ('k, 'w, 'r) torch_library =
  cuda_available :: bool
  model_from_pretrained :: "string \<Rightarrow> (string \<rightharpoonup> kwarg_value) \<Rightarrow> 'k exn + 'w"
  model_eval :: "'w \<Rightarrow> 'w"
  processor_from_pretrained :: "string \<Rightarrow> 'k exn + 'r"

definition load_model :: "('k, 'w, 'r) torch_library \<Rightarrow> settings \<Rightarrow> 'k exn + 'w \<times> 'r" where
  "load_model lib s =
     (case model_from_pretrained lib (MODEL_CHECKPOINT s)
             (load_model_kwargs s (cuda_available lib)) of
        Inl e \<Rightarrow> Inl e
      | Inr weights \<Rightarrow>
          (case processor_from_pretrained lib (MODEL_CHECKPOINT s) of
             Inl e \<Rightarrow> Inl e
           | Inr processor \<Rightarrow> Inr (model_eval lib weights, processor)))"

section \<open>Concrete inputs\<close>

text \<open>
  A small instance to run the functions on: a registry with one template that has the
  placeholder and one that has none, a library whose calls work row by row (the prompt of
  every sequence is two tokens long, generation appends the budget of new tokens), and a
  handle whose chat template renders the whole list of messages as one conversation. The
  last is what \<^verbatim>\<open>apply_chat_template\<close> of the transformers processor does with the argument
  that \<^verbatim>\<open>generate_hf\<close> passes: a flat list of message dictionaries is one conversation with
  several turns, and only a list of lists of messages is a batch of conversations.
\<close>

definition example_image :: "unit pil_image" where
  "example_image = \<lparr>width = 3000, height = 1001, pixels = ()\<rparr>"

definition example_settings :: settings where
  "example_settings =
     \<lparr>MODEL_CHECKPOINT = ''checkpoint'', MAX_OUTPUT_TOKENS = 3, BBOX_SCALE = 1000,
      TORCH_DEVICE = Some ''cpu'', TORCH_ATTN = None, USE_8BIT_QUANTIZATION = True\<rparr>"

definition example_globals :: "(unit, string, nat, unit) globals" where
  "example_globals =
     \<lparr>PROMPT_MAPPING =
        [''layout'' \<mapsto> ''Boxes 0-{bbox_scale}.'', ''plain'' \<mapsto> ''Read the page.''],
      the_settings = example_settings,
      rounding_mode = RoundDown,
      resample = (\<lambda>p sz. p),
      process_vision_info = (\<lambda>messages. Inr (length messages)),
      inputs_to = (\<lambda>inputs device. Inr inputs)\<rparr>"

definition example_model :: "(unit, string, nat list, nat, unit) model" where
  "example_model =
     \<lparr>apply_chat_template = (\<lambda>messages. Inr (map (\<lambda>msg. length (content msg)) messages)),
      processor_call = (\<lambda>text v. Inr \<lparr>input_ids = map (\<lambda>n. [1, n]) text, tensors = ()\<rparr>),
      generate = (\<lambda>inputs n. Inr (map (\<lambda>row. row @ replicate n 7) (input_ids inputs))),
      batch_decode = (\<lambda>rows. Inr (map (\<lambda>row. replicate (length row) CHR ''a'') rows))\<rparr>"

definition one_conversation_model :: "(unit, string, nat list, nat, unit) model" where
  "one_conversation_model =
     example_model\<lparr>apply_chat_template := (\<lambda>messages. Inr [length messages])\<rparr>"

definition item_explicit :: "(unit, string) BatchInputItem" where
  "item_explicit =
     \<lparr>item_image = example_image, prompt = Some ''Describe this chart'', prompt_type = ''layout''\<rparr>"

definition item_template :: "(unit, string) BatchInputItem" where
  "item_template = \<lparr>item_image = example_image, prompt = None, prompt_type = ''layout''\<rparr>"

definition item_empty_prompt :: "(unit, string) BatchInputItem" where
  "item_empty_prompt = \<lparr>item_image = example_image, prompt = Some [], prompt_type = ''plain''\<rparr>"

definition item_plain :: "(unit, string) BatchInputItem" where
  "item_plain = \<lparr>item_image = example_image, prompt = None, prompt_type = ''plain''\<rparr>"

definition small_image :: "unit pil_image" where
  "small_image = \<lparr>width = 800, height = 600, pixels = ()\<rparr>"

definition item_small :: "(unit, string) BatchInputItem" where
  "item_small = \<lparr>item_image = small_image, prompt = Some ''Describe'', prompt_type = ''plain''\<rparr>"

definition item_unregistered :: "(unit, string) BatchInputItem" where
  "item_unregistered = \<lparr>item_image = example_image, prompt = None, prompt_type = ''missing''\<rparr>"

text \<open>
  A machine with a CUDA device on which \<^verbatim>\<open>inputs.to(device)\<close> records the device in the
  batch, a processor that builds its batch on the CPU, and a model that generates only from a
  batch on \<^verbatim>\<open>"cuda"\<close> and raises otherwise.
\<close>

definition tagging_globals :: "(unit, string, nat, string) globals" where
  "tagging_globals =
     \<lparr>PROMPT_MAPPING =
        [''layout'' \<mapsto> ''Boxes 0-{bbox_scale}.'', ''plain'' \<mapsto> ''Read the page.''],
      the_settings = example_settings,
      rounding_mode = RoundDown,
      resample = (\<lambda>p sz. p),
      process_vision_info = (\<lambda>messages. Inr (length messages)),
      inputs_to = (\<lambda>inputs device. Inr (inputs\<lparr>tensors := device\<rparr>))\<rparr>"

definition device_model :: "(unit, string, nat list, nat, string) model" where
  "device_model =
     \<lparr>apply_chat_template = (\<lambda>messages. Inr (map (\<lambda>msg. length (content msg)) messages)),
      processor_call = (\<lambda>text v. Inr \<lparr>input_ids = map (\<lambda>n. [1, n]) text, tensors = ''cpu''\<rparr>),
      generate =
        (\<lambda>inputs n.
           if tensors inputs = ''cuda''
           then Inr (map (\<lambda>row. row @ replicate n 7) (input_ids inputs))
           else Inl (Raised ''tensors on different devices'')),
      batch_decode = (\<lambda>rows. Inr (map (\<lambda>row. replicate (length row) CHR ''a'') rows))\<rparr>"

text \<open>A handle whose \<^verbatim>\<open>generate\<close> raises.\<close>

definition failing_model :: "(unit, string, nat list, nat, unit) model" where
  "failing_model =
     example_model\<lparr>generate := (\<lambda>inputs n. Inl (Raised ''out of memory''))\<rparr>"

text \<open>A machine without a CUDA device: moving the batch to \<^verbatim>\<open>"cuda"\<close> raises.\<close>

definition no_cuda_globals :: "(unit, string, nat, unit) globals" where
  "no_cuda_globals =
     example_globals\<lparr>inputs_to :=
       (\<lambda>inputs device. if device = ''cuda'' then Inl (Raised ''no CUDA'') else Inr inputs)\<rparr>"

section \<open>Lemmas\<close>

subsection \<open>List comprehensions and the steps of \<^verbatim>\<open>generate_hf\<close>\<close>

lemma comprehension_Inr_iff:
  "comprehension f xs = Inr ys \<longleftrightarrow> map f xs = map Inr ys"
proof (induction xs arbitrary: ys)
  case Nil
  then show ?case by auto
next
  case (Cons x xs)
  show ?case
  proof (cases ys)
    case Nil
    then show ?thesis by (simp split: sum.splits)
  next
    case (Cons y ys')
    then show ?thesis
      using Cons.IH [of ys'] by (auto split: sum.splits)
  qed
qed

lemma comprehension_length:
  "comprehension f xs = Inr ys \<Longrightarrow> length ys = length xs"
  by (metis comprehension_Inr_iff length_map)

lemma comprehension_nth:
  "comprehension f xs = Inr ys \<Longrightarrow> i < length xs \<Longrightarrow> f (xs ! i) = Inr (ys ! i)"
  by (metis comprehension_Inr_iff length_map nth_map)

lemma comprehension_Inl_D:
  "comprehension f xs = Inl e \<Longrightarrow> \<exists>x \<in> set xs. f x = Inl e"
  by (induction xs) (auto split: sum.splits)

lemma comprehension_Inl_I:
  "x \<in> set xs \<Longrightarrow> f x = Inl e \<Longrightarrow> \<exists>e'. comprehension f xs = Inl e'"
  by (induction xs) (auto split: sum.splits)

lemma generate_hf_Inr_iff:
  "generate_hf g batch m mot bs = Inr results \<longleftrightarrow>
     (\<exists>messages text v inputs0 inputs gen out.
        comprehension (\<lambda>item. process_batch_element g item bs) batch = Inr messages \<and>
        apply_chat_template m messages = Inr text \<and>
        process_vision_info g messages = Inr v \<and>
        processor_call m text v = Inr inputs0 \<and>
        inputs_to g inputs0 ''cuda'' = Inr inputs \<and>
        generate m inputs
          (case mot of None \<Rightarrow> MAX_OUTPUT_TOKENS (the_settings g) | Some n \<Rightarrow> n) = Inr gen \<and>
        batch_decode m (trim_generated (input_ids inputs) gen) = Inr out \<and>
        results = wrap_results out (trim_generated (input_ids inputs) gen))"
  unfolding generate_hf_def Let_def
  by (auto split: sum.splits)

lemma length_trim_generated:
  "length (trim_generated ins outs) = min (length ins) (length outs)"
  by (simp add: trim_generated_def)

lemma nth_trim_generated:
  "i < length ins \<Longrightarrow> i < length outs \<Longrightarrow>
     trim_generated ins outs ! i = drop (length (ins ! i)) (outs ! i)"
  by (simp add: trim_generated_def)

lemma length_wrap_results:
  "length (wrap_results out ids) = min (length out) (length ids)"
  by (simp add: wrap_results_def)

lemma nth_wrap_results:
  "i < length out \<Longrightarrow> i < length ids \<Longrightarrow>
     wrap_results out ids ! i = \<lparr>raw = out ! i, token_count = length (ids ! i), error = False\<rparr>"
  by (simp add: wrap_results_def)

lemma error_wrap_results: "r \<in> set (wrap_results out ids) \<Longrightarrow> error r = False"
  by (auto simp: wrap_results_def)

lemma process_batch_element_cases:
  "process_batch_element g item bs =
     (if truthy (prompt item)
      then Inr \<lparr>role = ''user'',
                content = [ImageBlock (scale_to_fit (rounding_mode g) (resample g) (item_image item) (1536, 1024)),
                           TextBlock (the (prompt item))]\<rparr>
      else case PROMPT_MAPPING g (prompt_type item) of
             None \<Rightarrow> Inl (KeyError (prompt_type item))
           | Some template \<Rightarrow>
               Inr \<lparr>role = ''user'',
                    content = [ImageBlock (scale_to_fit (rounding_mode g) (resample g) (item_image item) (1536, 1024)),
                               TextBlock (py_replace ''{bbox_scale}'' (py_str bs) template)]\<rparr>)"
  by (simp add: process_batch_element_def lookup_def Let_def split: option.splits)

lemma generate_hf_Inl_iff:
  "generate_hf g batch m mot bs = Inl e \<longleftrightarrow>
     comprehension (\<lambda>item. process_batch_element g item bs) batch = Inl e \<or>
     (\<exists>messages.
        comprehension (\<lambda>item. process_batch_element g item bs) batch = Inr messages \<and>
        (apply_chat_template m messages = Inl e \<or>
         (\<exists>rendered.
            apply_chat_template m messages = Inr rendered \<and>
            (process_vision_info g messages = Inl e \<or>
             (\<exists>v. process_vision_info g messages = Inr v \<and>
                (processor_call m rendered v = Inl e \<or>
                 (\<exists>inputs0.
                    processor_call m rendered v = Inr inputs0 \<and>
                    (inputs_to g inputs0 ''cuda'' = Inl e \<or>
                     (\<exists>inputs.
                        inputs_to g inputs0 ''cuda'' = Inr inputs \<and>
                        (generate m inputs
                           (case mot of None \<Rightarrow> MAX_OUTPUT_TOKENS (the_settings g) | Some n \<Rightarrow> n)
                           = Inl e \<or>
                         (\<exists>gen.
                            generate m inputs
                              (case mot of None \<Rightarrow> MAX_OUTPUT_TOKENS (the_settings g) | Some n \<Rightarrow> n)
                              = Inr gen \<and>
                            batch_decode m (trim_generated (input_ids inputs) gen) = Inl e)))))))))))"
  unfolding generate_hf_def Let_def
  by (auto split: sum.splits)

lemma generate_hf_preprocessing_error:
  "comprehension (\<lambda>item. process_batch_element g item bs) batch = Inl e \<Longrightarrow>
     generate_hf g batch m mot bs = Inl e"
  by (simp add: generate_hf_def)

lemma process_batch_element_Inl_iff:
  "process_batch_element g item bs = Inl e \<longleftrightarrow>
     \<not> truthy (prompt item) \<and> PROMPT_MAPPING g (prompt_type item) = None \<and>
     e = KeyError (prompt_type item)"
  by (auto simp: process_batch_element_cases split: option.splits)

lemma process_batch_element_inputs_to:
  "process_batch_element (g\<lparr>inputs_to := f\<rparr>) item bs = process_batch_element g item bs"
  by (simp add: process_batch_element_cases split: option.splits)

lemma process_batch_element_library:
  "process_batch_element (g\<lparr>process_vision_info := vision, inputs_to := move\<rparr>) item bs =
     process_batch_element g item bs"
  by (simp add: process_batch_element_cases split: option.splits)

lemma process_batch_element_settings:
  "process_batch_element (g\<lparr>the_settings := s\<rparr>) item bs = process_batch_element g item bs"
  by (simp add: process_batch_element_cases split: option.splits)

lemma generate_hf_after_processor:
  assumes "comprehension (\<lambda>item. process_batch_element g item bbox_scale) batch = Inr messages"
    and "apply_chat_template m messages = Inr rendered"
    and "process_vision_info g messages = Inr image_inputs"
    and "processor_call m rendered image_inputs = Inr inputs0"
  shows "generate_hf g batch m max_output_tokens bbox_scale =
     (case inputs_to g inputs0 ''cuda'' of
        Inl e \<Rightarrow> Inl e
      | Inr inputs \<Rightarrow>
          (case generate m inputs
                  (case max_output_tokens of
                     None \<Rightarrow> MAX_OUTPUT_TOKENS (the_settings g)
                   | Some n \<Rightarrow> n) of
             Inl e \<Rightarrow> Inl e
           | Inr generated_ids \<Rightarrow>
               (case batch_decode m (trim_generated (input_ids inputs) generated_ids) of
                  Inl e \<Rightarrow> Inl e
                | Inr output_text \<Rightarrow>
                    Inr (wrap_results output_text
                           (trim_generated (input_ids inputs) generated_ids)))))"
  using assms by (simp add: generate_hf_def Let_def split: sum.splits)

subsection \<open>\<^verbatim>\<open>str\<close> and \<^verbatim>\<open>replace\<close>\<close>

lemma digit_char_mem: "d < 10 \<Longrightarrow> digit_char d \<in> set ''0123456789''"
  unfolding digit_char_def by (rule nth_mem) simp

lemma digits_nonempty: "digits n \<noteq> []"
  by (subst digits.simps) simp

lemma hd_digits: "hd (digits n) \<in> set ''0123456789''"
proof (induction n rule: digits.induct)
  case (1 n)
  show ?case
  proof (cases "n < 10")
    case True
    then show ?thesis
      using digit_char_mem [of n] by (subst digits.simps) simp
  next
    case False
    then show ?thesis
      using 1 digits_nonempty [of "n div 10"] by (subst digits.simps) simp
  qed
qed

lemma py_str_not_placeholder: "py_str i \<noteq> ''{bbox_scale}''"
proof
  assume eq: "py_str i = ''{bbox_scale}''"
  show False
  proof (cases "i < 0")
    case True
    with eq show False by (simp add: py_str_def)
  next
    case False
    with eq have "hd (digits (nat i)) = CHR ''{''" by (simp add: py_str_def)
    with hd_digits [of "nat i"] show False by simp
  qed
qed

lemma length_py_replace_ge:
  "old \<noteq> [] \<Longrightarrow> length old \<le> length new \<Longrightarrow> length s \<le> length (py_replace old new s)"
proof (induction old new s rule: py_replace.induct)
  case (1 old new)
  then show ?case by simp
next
  case (2 old new c cs)
  show ?case
  proof (cases "take (length old) (c # cs) = old")
    case True
    have "length (c # cs) = length old + length (drop (length old) (c # cs))"
      using True by (metis append_take_drop_id length_append)
    with 2 True show ?thesis by simp
  next
    case False
    with 2 show ?thesis by simp
  qed
qed

lemma length_py_replace_le:
  "old \<noteq> [] \<Longrightarrow> length new \<le> length old \<Longrightarrow> length (py_replace old new s) \<le> length s"
proof (induction old new s rule: py_replace.induct)
  case (1 old new)
  then show ?case by simp
next
  case (2 old new c cs)
  show ?case
  proof (cases "take (length old) (c # cs) = old")
    case True
    have "length (c # cs) = length old + length (drop (length old) (c # cs))"
      using True by (metis append_take_drop_id length_append)
    with 2 True show ?thesis by simp
  next
    case False
    with 2 show ?thesis by simp
  qed
qed

lemma py_replace_absent:
  "old \<noteq> [] \<Longrightarrow> \<not> (\<exists>a b. s = a @ old @ b) \<Longrightarrow> py_replace old new s = s"
proof (induction old new s rule: py_replace.induct)
  case (1 old new)
  then show ?case by simp
next
  case (2 old new c cs)
  have np: "take (length old) (c # cs) \<noteq> old"
  proof
    assume "take (length old) (c # cs) = old"
    then have "c # cs = [] @ old @ drop (length old) (c # cs)"
      by (metis append_Nil append_take_drop_id)
    with "2.prems"(2) show False by blast
  qed
  have "\<not> (\<exists>a b. cs = a @ old @ b)"
  proof
    assume "\<exists>a b. cs = a @ old @ b"
    then obtain a b where "cs = a @ old @ b" by blast
    then have "c # cs = (c # a) @ old @ b" by simp
    with "2.prems"(2) show False by blast
  qed
  with 2 np show ?case by simp
qed

lemma py_replace_changes:
  "old \<noteq> [] \<Longrightarrow> new \<noteq> old \<Longrightarrow> \<exists>a b. s = a @ old @ b \<Longrightarrow> py_replace old new s \<noteq> s"
proof (induction old new s rule: py_replace.induct)
  case (1 old new)
  then show ?case by simp
next
  case (2 old new c cs)
  let ?s = "c # cs"
  show ?case
  proof (cases "take (length old) ?s = old")
    case True
    let ?rest = "drop (length old) ?s"
    have s: "?s = old @ ?rest"
      using True by (metis append_take_drop_id)
    have r: "py_replace old new ?s = new @ py_replace old new ?rest"
      using True "2.prems"(1) by simp
    show ?thesis
    proof
      assume "py_replace old new ?s = ?s"
      with r s have eq: "new @ py_replace old new ?rest = old @ ?rest" by simp
      then have len: "length new + length (py_replace old new ?rest) = length old + length ?rest"
        by (metis length_append)
      consider "length new = length old" | "length new < length old" | "length old < length new"
        by linarith
      then show False
      proof cases
        case 1
        with eq have "new = old" by (metis append_eq_append_conv)
        with "2.prems"(2) show False by simp
      next
        case 2
        with length_py_replace_le [of old new ?rest] \<open>old \<noteq> []\<close> len show False by simp
      next
        case 3
        with length_py_replace_ge [of old new ?rest] \<open>old \<noteq> []\<close> len show False by simp
      qed
    qed
  next
    case False
    from "2.prems"(3) obtain a b where ab: "?s = a @ old @ b" by blast
    have "a \<noteq> []"
    proof
      assume "a = []"
      with ab have "take (length old) ?s = old" by simp
      with False show False by simp
    qed
    then obtain a' where "a = c # a'" using ab by (cases a) auto
    with ab have "cs = a' @ old @ b" by simp
    then have "\<exists>a b. cs = a @ old @ b" by blast
    with "2.IH"(3) [OF "2.prems"(1) False "2.prems"(1) "2.prems"(2)]
    have "py_replace old new cs \<noteq> cs" by simp
    with False "2.prems"(1) show ?thesis by simp
  qed
qed

lemma py_join_Cons: "ps \<noteq> [] \<Longrightarrow> py_join sep (p # ps) = p @ sep @ py_join sep ps"
  by (cases ps) simp_all

lemma py_replace_pieces:
  "old \<noteq> [] \<Longrightarrow>
     \<exists>pieces. pieces \<noteq> [] \<and> s = py_join old pieces \<and>
       py_replace old new s = py_join new pieces \<and>
       (\<forall>p \<in> set pieces. \<not> (\<exists>a b. p = a @ old @ b))"
proof (induction old new s rule: py_replace.induct)
  case (1 old new)
  have "[[]] \<noteq> [] \<and> [] = py_join old [[]] \<and> py_replace old new [] = py_join new [[]] \<and>
      (\<forall>p \<in> set [[]]. \<not> (\<exists>a b. p = a @ old @ b))"
    using "1.prems" by simp
  then show ?case by blast
next
  case (2 old new c cs)
  let ?s = "c # cs"
  show ?case
  proof (cases "take (length old) ?s = old")
    case True
    let ?rest = "drop (length old) ?s"
    from "2.IH"(2) [OF "2.prems" True "2.prems"]
    obtain pieces where ps: "pieces \<noteq> []" "?rest = py_join old pieces"
      "py_replace old new ?rest = py_join new pieces"
      "\<forall>p \<in> set pieces. \<not> (\<exists>a b. p = a @ old @ b)"
      by blast
    have s: "?s = old @ ?rest" using True by (metis append_take_drop_id)
    have "[] # pieces \<noteq> []" by simp
    moreover have "?s = py_join old ([] # pieces)"
      using s ps(1,2) by (simp add: py_join_Cons)
    moreover have "py_replace old new ?s = py_join new ([] # pieces)"
      using True "2.prems" ps(1,3) by (simp add: py_join_Cons)
    moreover have "\<forall>p \<in> set ([] # pieces). \<not> (\<exists>a b. p = a @ old @ b)"
      using ps(4) "2.prems" by simp
    ultimately show ?thesis by blast
  next
    case False
    from "2.IH"(3) [OF "2.prems" False "2.prems"]
    obtain pieces where ps: "pieces \<noteq> []" "cs = py_join old pieces"
      "py_replace old new cs = py_join new pieces"
      "\<forall>p \<in> set pieces. \<not> (\<exists>a b. p = a @ old @ b)"
      by blast
    from ps(1) obtain p qs where pq: "pieces = p # qs" by (cases pieces) auto
    have join: "py_join sep ((c # p) # qs) = c # py_join sep (p # qs)" for sep
      by (cases qs) simp_all
    have free: "\<not> (\<exists>a b. c # p = a @ old @ b)"
    proof
      assume "\<exists>a b. c # p = a @ old @ b"
      then obtain a b where ab: "c # p = a @ old @ b" by blast
      show False
      proof (cases a)
        case Nil
        with ab have cp: "c # p = old @ b" by simp
        have "\<exists>t. ?s = (c # p) @ t"
          using ps(2) pq by (cases qs) simp_all
        then obtain t where "?s = (c # p) @ t" by blast
        with cp have "?s = old @ (b @ t)" by simp
        then have "take (length old) ?s = old" by simp
        with False show False by simp
      next
        case (Cons x a')
        with ab have "p = a' @ old @ b" by simp
        with ps(4) pq show False by auto
      qed
    qed
    have "(c # p) # qs \<noteq> []" by simp
    moreover have "?s = py_join old ((c # p) # qs)"
      using ps(2) pq join by simp
    moreover have "py_replace old new ?s = py_join new ((c # p) # qs)"
      using False "2.prems" ps(3) pq join by simp
    moreover have "\<forall>q \<in> set ((c # p) # qs). \<not> (\<exists>a b. q = a @ old @ b)"
      using ps(4) pq free by simp
    ultimately show ?thesis by blast
  qed
qed

subsection \<open>Rounded division and \<^verbatim>\<open>scale_to_fit\<close>\<close>

lemma nat_div_bounds:
  assumes "0 < (d::nat)"
  shows "int (n div d) * int d \<le> int n" and "int n < int (n div d) * int d + int d"
proof -
  have a: "n div d * d \<le> n" by simp
  have "n mod d < d" using assms by simp
  then have b: "n < n div d * d + d"
    by (metis add.commute add_less_cancel_left div_mult_mod_eq mult.commute)
  from a have "int (n div d * d) \<le> int n" by (simp only: of_nat_le_iff)
  then show "int (n div d) * int d \<le> int n" by simp
  from b have "int n < int (n div d * d + d)" by (simp only: of_nat_less_iff)
  then show "int n < int (n div d) * int d + int d" by simp
qed

lemma round_div_le:
  assumes "0 < d" "n \<le> k * d"
  shows "round_div rnd n d \<le> k"
proof -
  have "int (round_div rnd n d) * int d < (int k + 1) * int d"
  proof (cases rnd)
    case RoundDown
    have "int (n div d) * int d \<le> int n" using nat_div_bounds(1) [OF assms(1)] .
    also have "int n \<le> int k * int d" using assms(2) by (metis of_nat_le_iff of_nat_mult)
    also have "\<dots> < (int k + 1) * int d" using assms(1) by (simp add: algebra_simps)
    finally show ?thesis using RoundDown by simp
  next
    case RoundUp
    have "int ((n + d - 1) div d) * int d \<le> int (n + d - 1)"
      using nat_div_bounds(1) [OF assms(1)] .
    also have "int (n + d - 1) = int n + int d - 1" using assms(1) by (simp add: of_nat_diff)
    also have "int n \<le> int k * int d" using assms(2) by (metis of_nat_le_iff of_nat_mult)
    finally show ?thesis using RoundUp by (simp add: algebra_simps)
  next
    case RoundNearest
    have d2: "0 < 2 * d" using assms(1) by simp
    have nk: "int n \<le> int k * int d" using assms(2) by (metis of_nat_le_iff of_nat_mult)
    have "int ((2 * n + d) div (2 * d)) * int (2 * d) \<le> int (2 * n + d)"
      using nat_div_bounds(1) [OF d2] .
    then have "2 * (int ((2 * n + d) div (2 * d)) * int d) \<le> 2 * int n + int d" by simp
    with nk have "2 * (int ((2 * n + d) div (2 * d)) * int d) \<le> 2 * (int k * int d) + int d" by simp
    then have "int ((2 * n + d) div (2 * d)) * int d < (int k + 1) * int d"
      using assms(1) by (simp add: algebra_simps)
    then show ?thesis using RoundNearest by simp
  qed
  then have "int (round_div rnd n d) < int k + 1"
    using assms(1) by simp
  then show ?thesis by simp
qed

lemma round_div_error:
  assumes "0 < d"
  shows "\<bar>int (round_div rnd n d) * int d - int n\<bar> < int d"
proof (cases rnd)
  case RoundDown
  with nat_div_bounds [OF assms, of n] show ?thesis by simp
next
  case RoundUp
  have e: "int (n + d - 1) = int n + int d - 1" using assms by (simp add: of_nat_diff)
  from nat_div_bounds [OF assms, of "n + d - 1"] RoundUp show ?thesis
    unfolding e by simp
next
  case RoundNearest
  have d2: "0 < 2 * d" using assms by simp
  from nat_div_bounds [OF d2, of "2 * n + d"] RoundNearest assms show ?thesis by simp
qed

lemma scale_to_fit_within:
  "width img \<le> mw \<Longrightarrow> height img \<le> mh \<Longrightarrow> scale_to_fit rnd rs img (mw, mh) = img"
  by (simp add: scale_to_fit_def)

lemma wider_than_cap:
  assumes "0 < (mw::nat)" "mw * h \<le> mh * w" "mw < w \<or> mh < h"
  shows "mw < w"
proof (rule ccontr)
  assume "\<not> mw < w"
  then have w: "w \<le> mw" by simp
  with assms(3) have h: "mh < h" by auto
  have "mh * w \<le> mh * mw" using w by simp
  also have "\<dots> < h * mw" using h assms(1) by simp
  finally show False using assms(2) by (simp add: mult.commute)
qed

lemma taller_than_cap:
  assumes "0 < (mh::nat)" "mh * w < mw * h" "mw < w \<or> mh < h"
  shows "mh < h"
proof (rule ccontr)
  assume "\<not> mh < h"
  then have h: "h \<le> mh" by simp
  with assms(3) have w: "mw < w" by auto
  have "mw * h \<le> mw * mh" using h by simp
  also have "\<dots> \<le> w * mh" using w by simp
  finally show False using assms(2) by (simp add: mult.commute)
qed

lemma scale_to_fit_bounds:
  assumes "0 < mw" "0 < mh"
  shows "width (scale_to_fit rnd rs img (mw, mh)) \<le> mw"
    and "height (scale_to_fit rnd rs img (mw, mh)) \<le> mh"
    and "width (scale_to_fit rnd rs img (mw, mh)) \<le> width img"
    and "height (scale_to_fit rnd rs img (mw, mh)) \<le> height img"
proof -
  let ?w = "width img" and ?h = "height img"
  let ?r = "scale_to_fit rnd rs img (mw, mh)"
  consider (within) "?w \<le> mw \<and> ?h \<le> mh"
    | (wide) "\<not> (?w \<le> mw \<and> ?h \<le> mh)" "mw * ?h \<le> mh * ?w"
    | (tall) "\<not> (?w \<le> mw \<and> ?h \<le> mh)" "mh * ?w < mw * ?h"
    by linarith
  then have "width ?r \<le> mw \<and> height ?r \<le> mh \<and> width ?r \<le> ?w \<and> height ?r \<le> ?h"
  proof cases
    case within
    then show ?thesis by (simp add: scale_to_fit_def)
  next
    case wide
    then have out: "mw < ?w \<or> mh < ?h" by linarith
    have w: "mw < ?w" using wider_than_cap [OF assms(1) wide(2) out] .
    then have w0: "0 < ?w" by simp
    have r: "?r = resize rs img (mw, round_div rnd (?h * mw) ?w)"
      using wide by (auto simp: scale_to_fit_def)
    have a: "round_div rnd (?h * mw) ?w \<le> mh"
      using wide(2) by (intro round_div_le [OF w0]) (simp add: mult.commute)
    have b: "round_div rnd (?h * mw) ?w \<le> ?h"
      using w by (intro round_div_le [OF w0]) simp
    from a b w show ?thesis by (simp add: r resize_def)
  next
    case tall
    then have out: "mw < ?w \<or> mh < ?h" by linarith
    have h: "mh < ?h" using taller_than_cap [OF assms(2) tall(2) out] .
    then have h0: "0 < ?h" by simp
    have r: "?r = resize rs img (round_div rnd (?w * mh) ?h, mh)"
      using tall by (auto simp: scale_to_fit_def)
    have a: "round_div rnd (?w * mh) ?h \<le> mw"
      using tall(2) by (intro round_div_le [OF h0]) (simp add: mult.commute)
    have b: "round_div rnd (?w * mh) ?h \<le> ?w"
      using h by (intro round_div_le [OF h0]) simp
    from a b h show ?thesis by (simp add: r resize_def)
  qed
  then show "width ?r \<le> mw" "height ?r \<le> mh" "width ?r \<le> ?w" "height ?r \<le> ?h"
    by simp_all
qed

lemma scale_to_fit_aspect:
  assumes "0 < mw" "0 < mh" "\<not> (width img \<le> mw \<and> height img \<le> mh)"
  shows "\<bar>int (width (scale_to_fit rnd rs img (mw, mh))) * int (height img)
          - int (height (scale_to_fit rnd rs img (mw, mh))) * int (width img)\<bar>
         < int (max (width img) (height img))"
proof -
  let ?w = "width img" and ?h = "height img"
  let ?r = "scale_to_fit rnd rs img (mw, mh)"
  from assms(3) have out: "mw < ?w \<or> mh < ?h" by linarith
  show ?thesis
  proof (cases "mw * ?h \<le> mh * ?w")
    case True
    have w: "mw < ?w" using wider_than_cap [OF assms(1) True out] .
    then have w0: "0 < ?w" by simp
    have r: "?r = resize rs img (mw, round_div rnd (?h * mw) ?w)"
      using True assms(3) by (auto simp: scale_to_fit_def)
    from round_div_error [OF w0, of rnd "?h * mw"]
    have "\<bar>int mw * int ?h - int (round_div rnd (?h * mw) ?w) * int ?w\<bar> < int ?w"
      by (simp add: mult.commute abs_minus_commute)
    then show ?thesis by (simp add: r resize_def)
  next
    case False
    then have t: "mh * ?w < mw * ?h" by simp
    have h: "mh < ?h" using taller_than_cap [OF assms(2) t out] .
    then have h0: "0 < ?h" by simp
    have r: "?r = resize rs img (round_div rnd (?w * mh) ?h, mh)"
      using False assms(3) by (auto simp: scale_to_fit_def)
    from round_div_error [OF h0, of rnd "?w * mh"]
    have "\<bar>int (round_div rnd (?w * mh) ?h) * int ?h - int mh * int ?w\<bar> < int ?h"
      by (simp add: mult.commute)
    then show ?thesis by (simp add: r resize_def)
  qed
qed

subsection \<open>The functions on the concrete inputs\<close>

lemma py_str_1000: "py_str 1000 = ''1000''"
  by (simp add: py_str_def digits.simps digit_char_def)

lemma example_scaled:
  "scale_to_fit RoundDown (\<lambda>p sz. p) example_image (1536, 1024) = \<lparr>width = 1536, height = 512, pixels = ()\<rparr>"
  by (simp add: scale_to_fit_def resize_def example_image_def)

lemma pbe_explicit:
  "process_batch_element example_globals item_explicit 1000 =
     Inr \<lparr>role = ''user'', content = [ImageBlock \<lparr>width = 1536, height = 512, pixels = ()\<rparr>, TextBlock ''Describe this chart'']\<rparr>"
  using example_scaled by (simp add: process_batch_element_cases example_globals_def item_explicit_def)

lemma pbe_template:
  "process_batch_element example_globals item_template 1000 =
     Inr \<lparr>role = ''user'', content = [ImageBlock \<lparr>width = 1536, height = 512, pixels = ()\<rparr>, TextBlock ''Boxes 0-1000.'']\<rparr>"
  using example_scaled py_str_1000 by (simp add: process_batch_element_cases example_globals_def item_template_def)

lemma messages_example:
  "comprehension (\<lambda>item. process_batch_element example_globals item 1000) [item_explicit, item_template] =
     Inr [\<lparr>role = ''user'', content = [ImageBlock \<lparr>width = 1536, height = 512, pixels = ()\<rparr>, TextBlock ''Describe this chart'']\<rparr>,
          \<lparr>role = ''user'', content = [ImageBlock \<lparr>width = 1536, height = 512, pixels = ()\<rparr>, TextBlock ''Boxes 0-1000.'']\<rparr>]"
  by (simp add: pbe_explicit pbe_template)

lemma run_example:
  "generate_hf example_globals [item_explicit, item_template] example_model None 1000 =
     Inr [\<lparr>raw = ''aaa'', token_count = 3, error = False\<rparr>,
          \<lparr>raw = ''aaa'', token_count = 3, error = False\<rparr>]"
  by (simp only: generate_hf_def messages_example)
     (simp add: example_globals_def example_model_def example_settings_def
        trim_generated_def wrap_results_def eval_nat_numeral)

lemma run_one_conversation:
  "generate_hf example_globals [item_explicit, item_template] one_conversation_model None 1000 =
     Inr [\<lparr>raw = ''aaa'', token_count = 3, error = False\<rparr>]"
  by (simp only: generate_hf_def messages_example)
     (simp add: example_globals_def example_model_def example_settings_def
        one_conversation_model_def trim_generated_def wrap_results_def eval_nat_numeral)

lemma run_failing_model:
  "generate_hf example_globals [item_explicit, item_template] failing_model None 1000 =
     Inl (Raised ''out of memory'')"
  by (simp only: generate_hf_def messages_example)
     (simp add: example_globals_def example_model_def failing_model_def)

lemma run_no_cuda:
  "generate_hf no_cuda_globals [item_explicit, item_template] example_model None 1000 =
     Inl (Raised ''no CUDA'')"
proof -
  have "comprehension (\<lambda>item. process_batch_element no_cuda_globals item 1000)
          [item_explicit, item_template] =
        comprehension (\<lambda>item. process_batch_element example_globals item 1000)
          [item_explicit, item_template]"
    by (simp add: no_cuda_globals_def process_batch_element_inputs_to)
  then show ?thesis
    by (simp only: generate_hf_def messages_example)
       (simp add: no_cuda_globals_def example_globals_def example_model_def)
qed

lemma run_unregistered:
  "generate_hf example_globals [item_explicit, item_unregistered] example_model None 1000 =
     Inl (KeyError ''missing'')"
proof -
  have "process_batch_element example_globals item_unregistered 1000 = Inl (KeyError ''missing'')"
    by (simp add: process_batch_element_cases example_globals_def item_unregistered_def)
  then show ?thesis
    by (simp add: generate_hf_def pbe_explicit)
qed

lemma pbe_plain:
  "process_batch_element example_globals item_plain 1000 =
     Inr \<lparr>role = ''user'',
          content = [ImageBlock \<lparr>width = 1536, height = 512, pixels = ()\<rparr>,
                     TextBlock ''Read the page.'']\<rparr>"
  using example_scaled py_str_1000
  by (simp add: process_batch_element_cases example_globals_def item_plain_def)

lemma pbe_empty_prompt:
  "process_batch_element example_globals item_empty_prompt 1000 =
     Inr \<lparr>role = ''user'',
          content = [ImageBlock \<lparr>width = 1536, height = 512, pixels = ()\<rparr>,
                     TextBlock ''Read the page.'']\<rparr>"
  using example_scaled py_str_1000
  by (simp add: process_batch_element_cases example_globals_def item_empty_prompt_def)

lemma pbe_small:
  "process_batch_element example_globals item_small 1000 =
     Inr \<lparr>role = ''user'', content = [ImageBlock small_image, TextBlock ''Describe'']\<rparr>"
  by (simp add: process_batch_element_cases example_globals_def item_small_def
      small_image_def scale_to_fit_def)

lemma replace_example:
  "py_replace ''{bbox_scale}'' ''1000'' ''Boxes 0-{bbox_scale}.'' = ''Boxes 0-1000.''"
  by simp

lemma messages_tagging:
  "comprehension (\<lambda>item. process_batch_element tagging_globals item 1000)
     [item_explicit, item_template] =
     Inr [\<lparr>role = ''user'', content = [ImageBlock \<lparr>width = 1536, height = 512, pixels = ()\<rparr>, TextBlock ''Describe this chart'']\<rparr>,
          \<lparr>role = ''user'', content = [ImageBlock \<lparr>width = 1536, height = 512, pixels = ()\<rparr>, TextBlock ''Boxes 0-1000.'']\<rparr>]"
  using example_scaled py_str_1000
  by (simp add: process_batch_element_cases tagging_globals_def item_explicit_def item_template_def)

lemma messages_no_cuda:
  "comprehension (\<lambda>item. process_batch_element no_cuda_globals item 1000)
     [item_explicit, item_template] =
     Inr [\<lparr>role = ''user'', content = [ImageBlock \<lparr>width = 1536, height = 512, pixels = ()\<rparr>, TextBlock ''Describe this chart'']\<rparr>,
          \<lparr>role = ''user'', content = [ImageBlock \<lparr>width = 1536, height = 512, pixels = ()\<rparr>, TextBlock ''Boxes 0-1000.'']\<rparr>]"
  using messages_example by (simp add: no_cuda_globals_def process_batch_element_inputs_to)

lemma messages_unregistered:
  "comprehension (\<lambda>item. process_batch_element example_globals item 1000)
     [item_explicit, item_unregistered] = Inl (KeyError ''missing'')"
proof -
  have "process_batch_element example_globals item_unregistered 1000 = Inl (KeyError ''missing'')"
    by (simp add: process_batch_element_cases example_globals_def item_unregistered_def)
  then show ?thesis by (simp add: pbe_explicit)
qed

section \<open>The claims\<close>

subsection \<open>C1: one result per item, in order\<close>

text \<open>
  C1 says that \<^verbatim>\<open>generate_hf\<close> returns exactly one \<^verbatim>\<open>GenerationResult\<close> per
  \<^verbatim>\<open>BatchInputItem\<close>, in the order of the batch. The code does not: it builds one message
  dictionary per item and passes the flat list of them to \<^verbatim>\<open>apply_chat_template\<close>, which
  renders a flat list of messages as one conversation. The processor then builds one row of
  \<^verbatim>\<open>input_ids\<close>, \<^verbatim>\<open>model.generate\<close> returns one row, and the two \<^verbatim>\<open>zip\<close>s yield one result:
  for the batch of two items the call returns a single result.
\<close>

theorem generate_hf_flat_messages_one_result:
  "generate_hf example_globals [item_explicit, item_template] one_conversation_model None 1000 =
     Inr [\<lparr>raw = ''aaa'', token_count = 3, error = False\<rparr>] \<and>
   length [\<lparr>raw = ''aaa'', token_count = 3, error = False\<rparr>] \<noteq>
     length [item_explicit, item_template]"
  by (simp add: run_one_conversation)

subsection \<open>C2: the trim by input length and the token count\<close>

text \<open>
  C2. On every call that returns, for every sequence of the batch (every pair of
  \<^verbatim>\<open>zip(inputs.input_ids, generated_ids)\<close> that yields a result): the tokens kept are the
  generated row without a prefix as long as that sequence's row of \<^verbatim>\<open>inputs.input_ids\<close>,
  the list of kept rows is what \<^verbatim>\<open>batch_decode\<close> receives, \<^verbatim>\<open>token_count\<close> of the
  corresponding result is the number of tokens kept, and \<^verbatim>\<open>raw\<close> is the decoded string of
  the same index.
\<close>

theorem generate_hf_trims_by_input_length:
  assumes "generate_hf g batch m max_output_tokens bbox_scale = Inr results"
  shows "\<exists>inputs0 inputs generated_ids output_text.
           inputs_to g inputs0 ''cuda'' = Inr inputs \<and>
           generate m inputs
             (case max_output_tokens of
                None \<Rightarrow> MAX_OUTPUT_TOKENS (the_settings g)
              | Some n \<Rightarrow> n) = Inr generated_ids \<and>
           batch_decode m (trim_generated (input_ids inputs) generated_ids) = Inr output_text \<and>
           length results =
             min (length output_text) (min (length (input_ids inputs)) (length generated_ids)) \<and>
           (\<forall>i < length results.
              trim_generated (input_ids inputs) generated_ids ! i =
                drop (length (input_ids inputs ! i)) (generated_ids ! i) \<and>
              token_count (results ! i) =
                length (trim_generated (input_ids inputs) generated_ids ! i) \<and>
              token_count (results ! i) =
                length (generated_ids ! i) - length (input_ids inputs ! i) \<and>
              raw (results ! i) = output_text ! i)"
proof -
  from assms obtain messages rendered v inputs0 inputs gen out where
    to: "inputs_to g inputs0 ''cuda'' = Inr inputs"
    and gen: "generate m inputs
        (case max_output_tokens of None \<Rightarrow> MAX_OUTPUT_TOKENS (the_settings g) | Some n \<Rightarrow> n)
        = Inr gen"
    and dec: "batch_decode m (trim_generated (input_ids inputs) gen) = Inr out"
    and res: "results = wrap_results out (trim_generated (input_ids inputs) gen)"
    unfolding generate_hf_Inr_iff by blast
  let ?trimmed = "trim_generated (input_ids inputs) gen"
  have len: "length results = min (length out) (min (length (input_ids inputs)) (length gen))"
    by (simp add: res length_wrap_results length_trim_generated)
  have each: "?trimmed ! i = drop (length (input_ids inputs ! i)) (gen ! i) \<and>
      token_count (results ! i) = length (?trimmed ! i) \<and>
      token_count (results ! i) = length (gen ! i) - length (input_ids inputs ! i) \<and>
      raw (results ! i) = out ! i" if "i < length results" for i
  proof -
    from that len have i: "i < length out" "i < length (input_ids inputs)" "i < length gen"
      by simp_all
    then have it: "i < length ?trimmed" by (simp add: length_trim_generated)
    have t: "?trimmed ! i = drop (length (input_ids inputs ! i)) (gen ! i)"
      using i by (simp add: nth_trim_generated)
    have r: "results ! i = \<lparr>raw = out ! i, token_count = length (?trimmed ! i), error = False\<rparr>"
      unfolding res using i(1) it by (rule nth_wrap_results)
    from t r show ?thesis by simp
  qed
  from to gen dec len each show ?thesis by blast
qed

text \<open>
  The theorem on the batch of two items: each prompt row has two tokens, three tokens are
  generated, and each result counts three tokens.
\<close>

theorem generate_hf_trims_by_input_length_witness:
  "generate_hf example_globals [item_explicit, item_template] example_model None 1000 =
     Inr [\<lparr>raw = ''aaa'', token_count = 3, error = False\<rparr>,
          \<lparr>raw = ''aaa'', token_count = 3, error = False\<rparr>] \<and>
   trim_generated [[1, 2], [1, 2]] [[1, 2, 7, 7, 7], [1, 2, 7, 7, 7]] = [[7, 7, 7], [7, 7, 7]]"
proof -
  from generate_hf_trims_by_input_length [OF run_example]
  have "\<exists>inputs generated_ids output_text.
          batch_decode example_model (trim_generated (input_ids (inputs :: unit inputs)) generated_ids)
            = Inr output_text" by blast
  then show ?thesis
    using run_example by (simp add: trim_generated_def)
qed

subsection \<open>C3: the prompt rendered from the template\<close>

text \<open>
  C3, as amended. For every item without a prompt (absent or empty) whose \<^verbatim>\<open>prompt_type\<close>
  is registered, the text of its message is the registered template with every occurrence
  of \<^verbatim>\<open>{bbox_scale}\<close> replaced by \<^verbatim>\<open>str(bbox_scale)\<close>: the template is pieces free of the
  placeholder joined by the placeholder, and the prompt is the same pieces joined by
  \<^verbatim>\<open>str(bbox_scale)\<close>. The string of an integer scale is never
  the placeholder text, and the rendered prompt differs from the template exactly when the
  template contains the placeholder.
\<close>

theorem process_batch_element_renders_template:
  assumes "\<not> truthy (prompt item)"
    and "PROMPT_MAPPING g (prompt_type item) = Some template"
  shows "process_batch_element g item bbox_scale =
           Inr \<lparr>role = ''user'',
                content =
                  [ImageBlock (scale_to_fit (rounding_mode g) (resample g) (item_image item)
                                 (1536, 1024)),
                   TextBlock (py_replace ''{bbox_scale}'' (py_str bbox_scale) template)]\<rparr> \<and>
         (\<exists>pieces.
            template = py_join ''{bbox_scale}'' pieces \<and>
            py_replace ''{bbox_scale}'' (py_str bbox_scale) template =
              py_join (py_str bbox_scale) pieces \<and>
            (\<forall>p \<in> set pieces. \<not> (\<exists>a b. p = a @ ''{bbox_scale}'' @ b))) \<and>
         py_str bbox_scale \<noteq> ''{bbox_scale}'' \<and>
         (py_replace ''{bbox_scale}'' (py_str bbox_scale) template \<noteq> template) =
           (\<exists>a b. template = a @ ''{bbox_scale}'' @ b)"
proof (intro conjI)
  have "''{bbox_scale}'' \<noteq> []" by simp
  from py_replace_pieces [OF this, of template "py_str bbox_scale"]
  show "\<exists>pieces.
            template = py_join ''{bbox_scale}'' pieces \<and>
            py_replace ''{bbox_scale}'' (py_str bbox_scale) template =
              py_join (py_str bbox_scale) pieces \<and>
            (\<forall>p \<in> set pieces. \<not> (\<exists>a b. p = a @ ''{bbox_scale}'' @ b))"
    by (elim exE conjE) (intro exI conjI)
  show "process_batch_element g item bbox_scale =
           Inr \<lparr>role = ''user'',
                content =
                  [ImageBlock (scale_to_fit (rounding_mode g) (resample g) (item_image item)
                                 (1536, 1024)),
                   TextBlock (py_replace ''{bbox_scale}'' (py_str bbox_scale) template)]\<rparr>"
    using assms by (simp add: process_batch_element_cases)
  show ne: "py_str bbox_scale \<noteq> ''{bbox_scale}''" by (rule py_str_not_placeholder)
  show "(py_replace ''{bbox_scale}'' (py_str bbox_scale) template \<noteq> template) =
           (\<exists>a b. template = a @ ''{bbox_scale}'' @ b)"
  proof
    assume d: "py_replace ''{bbox_scale}'' (py_str bbox_scale) template \<noteq> template"
    show "\<exists>a b. template = a @ ''{bbox_scale}'' @ b"
    proof (rule ccontr)
      assume "\<not> (\<exists>a b. template = a @ ''{bbox_scale}'' @ b)"
      then have "py_replace ''{bbox_scale}'' (py_str bbox_scale) template = template"
        by (intro py_replace_absent) simp_all
      with d show False by simp
    qed
  next
    assume "\<exists>a b. template = a @ ''{bbox_scale}'' @ b"
    then show "py_replace ''{bbox_scale}'' (py_str bbox_scale) template \<noteq> template"
      using ne by (intro py_replace_changes) simp_all
  qed
qed

text \<open>
  The theorem on the item of type \<^verbatim>\<open>"layout"\<close>, whose template has the placeholder, with
  the scale 1000.
\<close>

theorem process_batch_element_renders_template_witness:
  "\<not> truthy (prompt item_template) \<and>
   PROMPT_MAPPING example_globals (prompt_type item_template) = Some ''Boxes 0-{bbox_scale}.'' \<and>
   process_batch_element example_globals item_template 1000 =
     Inr \<lparr>role = ''user'',
          content = [ImageBlock \<lparr>width = 1536, height = 512, pixels = ()\<rparr>,
                     TextBlock ''Boxes 0-1000.'']\<rparr> \<and>
   py_replace ''{bbox_scale}'' (py_str 1000) ''Boxes 0-{bbox_scale}.'' = ''Boxes 0-1000.'' \<and>
   py_replace ''{bbox_scale}'' (py_str 1000) ''Boxes 0-{bbox_scale}.'' \<noteq> ''Boxes 0-{bbox_scale}.''"
proof -
  have h1: "\<not> truthy (prompt item_template)" by (simp add: item_template_def)
  have h2: "PROMPT_MAPPING example_globals (prompt_type item_template) = Some ''Boxes 0-{bbox_scale}.''"
    by (simp add: example_globals_def item_template_def)
  have "''Boxes 0-{bbox_scale}.'' = ''Boxes 0-'' @ ''{bbox_scale}'' @ ''.''" by simp
  then have h3: "\<exists>a b. ''Boxes 0-{bbox_scale}.'' = a @ ''{bbox_scale}'' @ b" by blast
  from process_batch_element_renders_template [OF h1 h2, where bbox_scale = 1000] h3
  have "py_replace ''{bbox_scale}'' (py_str 1000) ''Boxes 0-{bbox_scale}.'' \<noteq> ''Boxes 0-{bbox_scale}.''"
    by simp
  with h1 h2 pbe_template py_str_1000 replace_example show ?thesis by simp
qed

text \<open>
  C3 as stated fails for a template without the placeholder: the scale's string differs
  from the placeholder text, and the prompt is the template itself.
\<close>

theorem process_batch_element_plain_template_counterexample:
  "\<not> truthy (prompt item_plain) \<and>
   PROMPT_MAPPING example_globals (prompt_type item_plain) = Some ''Read the page.'' \<and>
   py_str 1000 \<noteq> ''{bbox_scale}'' \<and>
   process_batch_element example_globals item_plain 1000 =
     Inr \<lparr>role = ''user'',
          content = [ImageBlock \<lparr>width = 1536, height = 512, pixels = ()\<rparr>,
                     TextBlock ''Read the page.'']\<rparr>"
  using pbe_plain py_str_1000 by (simp add: item_plain_def example_globals_def)

subsection \<open>C4: an explicit prompt\<close>

text \<open>
  C4, as amended. For every item whose prompt is a non-empty string, that string is the
  text of the item's message as it is, whatever the item's \<^verbatim>\<open>prompt_type\<close> and the
  registry. (The test is \<^verbatim>\<open>if not prompt\<close>: an empty string counts as no prompt.)
\<close>

theorem process_batch_element_explicit_prompt:
  assumes "prompt item = Some p" and "p \<noteq> []"
  shows "process_batch_element g item bbox_scale =
           Inr \<lparr>role = ''user'',
                content =
                  [ImageBlock (scale_to_fit (rounding_mode g) (resample g) (item_image item)
                                 (1536, 1024)),
                   TextBlock p]\<rparr>"
  using assms by (simp add: process_batch_element_cases)

text \<open>The theorem on the item with the prompt \<^verbatim>\<open>"Describe this chart"\<close>.\<close>

theorem process_batch_element_explicit_prompt_witness:
  "prompt item_explicit = Some ''Describe this chart'' \<and>
   ''Describe this chart'' \<noteq> [] \<and>
   process_batch_element example_globals item_explicit 1000 =
     Inr \<lparr>role = ''user'',
          content = [ImageBlock \<lparr>width = 1536, height = 512, pixels = ()\<rparr>,
                     TextBlock ''Describe this chart'']\<rparr>"
proof -
  have h1: "prompt item_explicit = Some ''Describe this chart''" by (simp add: item_explicit_def)
  have h2: "''Describe this chart'' \<noteq> []" by simp
  from process_batch_element_explicit_prompt
    [OF h1 h2, where g = example_globals and bbox_scale = 1000]
  have "process_batch_element example_globals item_explicit 1000 =
      Inr \<lparr>role = ''user'',
           content =
             [ImageBlock (scale_to_fit (rounding_mode example_globals) (resample example_globals)
                            (item_image item_explicit) (1536, 1024)),
              TextBlock ''Describe this chart'']\<rparr>" .
  with h1 pbe_explicit show ?thesis by simp
qed

text \<open>
  C4 as stated fails for the empty string: the item's prompt is \<^verbatim>\<open>""\<close>, and the text of
  its message is the template of its \<^verbatim>\<open>prompt_type\<close>.
\<close>

theorem process_batch_element_empty_prompt_counterexample:
  "prompt item_empty_prompt = Some [] \<and>
   process_batch_element example_globals item_empty_prompt 1000 =
     Inr \<lparr>role = ''user'',
          content = [ImageBlock \<lparr>width = 1536, height = 512, pixels = ()\<rparr>,
                     TextBlock ''Read the page.'']\<rparr> \<and>
   TextBlock ''Read the page.'' \<noteq> (TextBlock [] :: unit block)"
  using pbe_empty_prompt by (simp add: item_empty_prompt_def)

subsection \<open>C5: the image of the message\<close>

text \<open>
  C5. For every item for which a message is built, the image of the message is
  \<^verbatim>\<open>scale_to_fit(item.image, max_size=(1536, 1024))\<close>. With \<^verbatim>\<open>scale_to_fit\<close> as the
  specification describes it, and whatever its rounding: the width is at most 1536 and the
  height at most 1024, neither dimension grows, an image within both bounds is returned
  unchanged, and a scaled image keeps the aspect ratio within rounding (the cross products of
  the old and new dimensions differ by less than the larger old dimension, that is, by less
  than one pixel).
\<close>

theorem process_batch_element_image_scaled:
  assumes "process_batch_element g item bbox_scale = Inr msg"
  shows "\<exists>image prompt_text.
           content msg = [ImageBlock image, TextBlock prompt_text] \<and>
           image = scale_to_fit (rounding_mode g) (resample g) (item_image item) (1536, 1024) \<and>
           width image \<le> 1536 \<and> height image \<le> 1024 \<and>
           width image \<le> width (item_image item) \<and>
           height image \<le> height (item_image item) \<and>
           (width (item_image item) \<le> 1536 \<and> height (item_image item) \<le> 1024 \<longrightarrow>
              image = item_image item) \<and>
           (\<not> (width (item_image item) \<le> 1536 \<and> height (item_image item) \<le> 1024) \<longrightarrow>
              \<bar>int (width image) * int (height (item_image item))
                 - int (height image) * int (width (item_image item))\<bar>
              < int (max (width (item_image item)) (height (item_image item))))"
proof -
  let ?img = "item_image item"
  let ?image = "scale_to_fit (rounding_mode g) (resample g) ?img (1536, 1024)"
  from assms obtain prompt_text where
    c: "content msg = [ImageBlock ?image, TextBlock prompt_text]"
    by (auto simp: process_batch_element_cases split: if_splits option.splits)
  have caps: "(0::nat) < 1536" "(0::nat) < 1024" by simp_all
  note b = scale_to_fit_bounds [OF caps, of "rounding_mode g" "resample g" ?img]
  have w: "width ?img \<le> 1536 \<and> height ?img \<le> 1024 \<longrightarrow> ?image = ?img"
    by (simp add: scale_to_fit_within)
  have a: "\<not> (width ?img \<le> 1536 \<and> height ?img \<le> 1024) \<longrightarrow>
      \<bar>int (width ?image) * int (height ?img) - int (height ?image) * int (width ?img)\<bar>
      < int (max (width ?img) (height ?img))"
    using scale_to_fit_aspect [OF caps, of ?img "rounding_mode g" "resample g"] by blast
  from c b w a show ?thesis by blast
qed

text \<open>
  The theorem on an image of 3000 by 1001 pixels, scaled to 1536 by 512, and on an image of
  800 by 600 pixels, which is returned as it is.
\<close>

theorem process_batch_element_image_scaled_witness:
  "process_batch_element example_globals item_template 1000 =
     Inr \<lparr>role = ''user'',
          content = [ImageBlock \<lparr>width = 1536, height = 512, pixels = ()\<rparr>,
                     TextBlock ''Boxes 0-1000.'']\<rparr> \<and>
   item_image item_template = \<lparr>width = 3000, height = 1001, pixels = ()\<rparr> \<and>
   \<bar>int 1536 * int 1001 - int 512 * int 3000\<bar> < int (max 3000 1001) \<and>
   process_batch_element example_globals item_small 1000 =
     Inr \<lparr>role = ''user'', content = [ImageBlock small_image, TextBlock ''Describe'']\<rparr> \<and>
   item_image item_small = small_image"
proof -
  from process_batch_element_image_scaled [OF pbe_template]
  obtain image where
    "image = scale_to_fit (rounding_mode example_globals) (resample example_globals)
               (item_image item_template) (1536, 1024)"
    "width image \<le> 1536" "height image \<le> 1024"
    by (elim exE conjE)
  moreover from process_batch_element_image_scaled [OF pbe_small]
  obtain unchanged where
    "unchanged = scale_to_fit (rounding_mode example_globals) (resample example_globals)
               (item_image item_small) (1536, 1024)"
    "width unchanged \<le> 1536"
    by (elim exE conjE)
  ultimately show ?thesis
    using pbe_template pbe_small
    by (simp add: item_template_def item_small_def example_image_def)
qed

subsection \<open>C6: quantization and the 32-bit default exclude each other\<close>



subsection \<open>C7: the shape of the message\<close>

text \<open>
  C7. For every item, \<^verbatim>\<open>process_batch_element\<close> either raises the \<^verbatim>\<open>KeyError\<close> of C10 (the
  item has no prompt and its type is not registered) or returns a message whose role is
  \<^verbatim>\<open>"user"\<close> and whose content has exactly two blocks, the image block first and the
  text block second.
\<close>

theorem process_batch_element_message_shape:
  "(case process_batch_element g item bbox_scale of
      Inl e \<Rightarrow>
        e = KeyError (prompt_type item) \<and> \<not> truthy (prompt item) \<and>
        PROMPT_MAPPING g (prompt_type item) = None
    | Inr msg \<Rightarrow>
        role msg = ''user'' \<and> length (content msg) = 2 \<and>
        (\<exists>image prompt_text. content msg = [ImageBlock image, TextBlock prompt_text]))"
  by (simp add: process_batch_element_cases split: option.splits)

text \<open>The theorem on the item of type \<^verbatim>\<open>"layout"\<close>.\<close>

theorem process_batch_element_message_shape_witness:
  "process_batch_element example_globals item_template 1000 =
     Inr \<lparr>role = ''user'',
          content = [ImageBlock \<lparr>width = 1536, height = 512, pixels = ()\<rparr>,
                     TextBlock ''Boxes 0-1000.'']\<rparr> \<and>
   role \<lparr>role = ''user'',
         content = [ImageBlock \<lparr>width = 1536, height = 512, pixels = ()\<rparr>,
                    TextBlock ''Boxes 0-1000.'']\<rparr> = ''user''"
  using process_batch_element_message_shape
    [where g = example_globals and item = item_template and bbox_scale = 1000]
  by (simp add: pbe_template)

subsection \<open>C8: the error flag and uncaught exceptions\<close>

text \<open>
  C8. On every call of \<^verbatim>\<open>generate_hf\<close> that returns, the \<^verbatim>\<open>error\<close> field of every result is
  false. Nothing is caught: the call raises an exception exactly when one of its steps
  raises it after the steps before have returned, whether the step is the preprocessing of the
  items, \<^verbatim>\<open>apply_chat_template\<close>, \<^verbatim>\<open>process_vision_info\<close>, the processor call,
  \<^verbatim>\<open>inputs.to\<close>, \<^verbatim>\<open>model.generate\<close> or \<^verbatim>\<open>batch_decode\<close>. So one item whose preprocessing
  raises makes the whole call raise, and a call that raises returns no result at all.
\<close>

theorem generate_hf_error_flag_and_propagation:
  "(\<forall>results. generate_hf g batch m max_output_tokens bbox_scale = Inr results \<longrightarrow>
      (\<forall>r \<in> set results. error r = False)) \<and>
   (\<forall>e. (generate_hf g batch m max_output_tokens bbox_scale = Inl e) =
      (comprehension (\<lambda>item. process_batch_element g item bbox_scale) batch = Inl e \<or>
       (\<exists>messages.
          comprehension (\<lambda>item. process_batch_element g item bbox_scale) batch = Inr messages \<and>
          (apply_chat_template m messages = Inl e \<or>
           (\<exists>rendered.
              apply_chat_template m messages = Inr rendered \<and>
              (process_vision_info g messages = Inl e \<or>
               (\<exists>image_inputs.
                  process_vision_info g messages = Inr image_inputs \<and>
                  (processor_call m rendered image_inputs = Inl e \<or>
                   (\<exists>inputs0.
                      processor_call m rendered image_inputs = Inr inputs0 \<and>
                      (inputs_to g inputs0 ''cuda'' = Inl e \<or>
                       (\<exists>inputs.
                          inputs_to g inputs0 ''cuda'' = Inr inputs \<and>
                          (generate m inputs
                             (case max_output_tokens of
                                None \<Rightarrow> MAX_OUTPUT_TOKENS (the_settings g)
                              | Some n \<Rightarrow> n) = Inl e \<or>
                           (\<exists>generated_ids.
                              generate m inputs
                                (case max_output_tokens of
                                   None \<Rightarrow> MAX_OUTPUT_TOKENS (the_settings g)
                                 | Some n \<Rightarrow> n) = Inr generated_ids \<and>
                              batch_decode m (trim_generated (input_ids inputs) generated_ids) =
                                Inl e))))))))))))) \<and>
   (\<forall>item \<in> set batch. \<forall>e. process_batch_element g item bbox_scale = Inl e \<longrightarrow>
      isl (generate_hf g batch m max_output_tokens bbox_scale)) \<and>
   (\<forall>e. generate_hf g batch m max_output_tokens bbox_scale = Inl e \<longrightarrow>
      (\<forall>results. generate_hf g batch m max_output_tokens bbox_scale \<noteq> Inr results))"
proof (intro conjI allI impI ballI)
  fix results r
  assume "generate_hf g batch m max_output_tokens bbox_scale = Inr results"
    and r: "r \<in> set results"
  then obtain out ids where "results = wrap_results out ids"
    unfolding generate_hf_Inr_iff by blast
  with r show "error r = False" by (simp add: error_wrap_results)
next
  fix e
  show "(generate_hf g batch m max_output_tokens bbox_scale = Inl e) =
      (comprehension (\<lambda>item. process_batch_element g item bbox_scale) batch = Inl e \<or>
       (\<exists>messages.
          comprehension (\<lambda>item. process_batch_element g item bbox_scale) batch = Inr messages \<and>
          (apply_chat_template m messages = Inl e \<or>
           (\<exists>rendered.
              apply_chat_template m messages = Inr rendered \<and>
              (process_vision_info g messages = Inl e \<or>
               (\<exists>image_inputs.
                  process_vision_info g messages = Inr image_inputs \<and>
                  (processor_call m rendered image_inputs = Inl e \<or>
                   (\<exists>inputs0.
                      processor_call m rendered image_inputs = Inr inputs0 \<and>
                      (inputs_to g inputs0 ''cuda'' = Inl e \<or>
                       (\<exists>inputs.
                          inputs_to g inputs0 ''cuda'' = Inr inputs \<and>
                          (generate m inputs
                             (case max_output_tokens of
                                None \<Rightarrow> MAX_OUTPUT_TOKENS (the_settings g)
                              | Some n \<Rightarrow> n) = Inl e \<or>
                           (\<exists>generated_ids.
                              generate m inputs
                                (case max_output_tokens of
                                   None \<Rightarrow> MAX_OUTPUT_TOKENS (the_settings g)
                                 | Some n \<Rightarrow> n) = Inr generated_ids \<and>
                              batch_decode m (trim_generated (input_ids inputs) generated_ids) =
                                Inl e))))))))))))"
    by (rule generate_hf_Inl_iff)
next
  fix item e
  assume "item \<in> set batch" "process_batch_element g item bbox_scale = Inl e"
  from comprehension_Inl_I
    [of item batch "\<lambda>item. process_batch_element g item bbox_scale", OF this]
  obtain e' where "comprehension (\<lambda>item. process_batch_element g item bbox_scale) batch = Inl e'"
    by (rule exE)
  from generate_hf_preprocessing_error [OF this, of m max_output_tokens]
  show "isl (generate_hf g batch m max_output_tokens bbox_scale)" by simp
next
  fix e results
  assume "generate_hf g batch m max_output_tokens bbox_scale = Inl e"
  then show "generate_hf g batch m max_output_tokens bbox_scale \<noteq> Inr results" by simp
qed

text \<open>
  The theorem on batches of two items: with the library that works, both results have
  \<^verbatim>\<open>error = False\<close>; when \<^verbatim>\<open>generate\<close> raises, when the second item's prompt type is not
  registered, and when \<^verbatim>\<open>inputs.to("cuda")\<close> raises, the call raises the same exception.
\<close>

theorem generate_hf_error_flag_and_propagation_witness:
  "generate_hf example_globals [item_explicit, item_template] example_model None 1000 =
     Inr [\<lparr>raw = ''aaa'', token_count = 3, error = False\<rparr>,
          \<lparr>raw = ''aaa'', token_count = 3, error = False\<rparr>] \<and>
   list_all (\<lambda>r. error r = False)
     [\<lparr>raw = ''aaa'', token_count = 3, error = False\<rparr>,
      \<lparr>raw = ''aaa'', token_count = 3, error = False\<rparr>] \<and>
   generate_hf example_globals [item_explicit, item_template] failing_model None 1000 =
     Inl (Raised ''out of memory'') \<and>
   generate_hf example_globals [item_explicit, item_unregistered] example_model None 1000 =
     Inl (KeyError ''missing'') \<and>
   generate_hf no_cuda_globals [item_explicit, item_template] example_model None 1000 =
     Inl (Raised ''no CUDA'')"
proof -
  let ?batch = "[item_explicit, item_template]"
  let ?messages =
    "[\<lparr>role = ''user'', content = [ImageBlock \<lparr>width = 1536, height = 512, pixels = ()\<rparr>,
                                      TextBlock ''Describe this chart'']\<rparr>,
      \<lparr>role = ''user'', content = [ImageBlock \<lparr>width = 1536, height = 512, pixels = ()\<rparr>,
                                      TextBlock ''Boxes 0-1000.'']\<rparr>]"
  let ?inputs = "\<lparr>input_ids = [[1, 2], [1, 2]], tensors = ()\<rparr> :: unit inputs"
  have flags: "\<forall>r \<in> set [\<lparr>raw = ''aaa'', token_count = 3, error = False\<rparr>,
                          \<lparr>raw = ''aaa'', token_count = 3, error = False\<rparr>]. error r = False"
    using generate_hf_error_flag_and_propagation
      [where g = example_globals and batch = ?batch and m = example_model
         and max_output_tokens = None and bbox_scale = 1000]
      run_example by blast
  have h2: "apply_chat_template failing_model ?messages = Inr [2, 2]"
    by (simp add: failing_model_def example_model_def)
  have h3: "process_vision_info example_globals ?messages = Inr 2"
    by (simp add: example_globals_def)
  have h4: "processor_call failing_model [2, 2] 2 = Inr ?inputs"
    by (simp add: failing_model_def example_model_def)
  have h5: "inputs_to example_globals ?inputs ''cuda'' = Inr ?inputs"
    by (simp add: example_globals_def)
  have h6: "generate failing_model ?inputs
              (case None of None \<Rightarrow> MAX_OUTPUT_TOKENS (the_settings example_globals) | Some n \<Rightarrow> n)
            = Inl (Raised ''out of memory'')"
    by (simp add: failing_model_def)
  have raised: "generate_hf example_globals ?batch failing_model None 1000 =
      Inl (Raised ''out of memory'')"
    using generate_hf_error_flag_and_propagation
      [where g = example_globals and batch = ?batch and m = failing_model
         and max_output_tokens = None and bbox_scale = 1000]
      messages_example h2 h3 h4 h5 h6 by blast
  have lookup_failed: "generate_hf example_globals [item_explicit, item_unregistered] example_model
      None 1000 = Inl (KeyError ''missing'')"
    using generate_hf_error_flag_and_propagation
      [where g = example_globals and batch = "[item_explicit, item_unregistered]"
         and m = example_model and max_output_tokens = None and bbox_scale = 1000]
      messages_unregistered by blast
  have n2: "apply_chat_template example_model ?messages = Inr [2, 2]"
    by (simp add: example_model_def)
  have n3: "process_vision_info no_cuda_globals ?messages = Inr 2"
    by (simp add: no_cuda_globals_def example_globals_def)
  have n4: "processor_call example_model [2, 2] 2 = Inr ?inputs"
    by (simp add: example_model_def)
  have n5: "inputs_to no_cuda_globals ?inputs ''cuda'' = Inl (Raised ''no CUDA'')"
    by (simp add: no_cuda_globals_def)
  have move_failed: "generate_hf no_cuda_globals ?batch example_model None 1000 =
      Inl (Raised ''no CUDA'')"
    using generate_hf_error_flag_and_propagation
      [where g = no_cuda_globals and batch = ?batch and m = example_model
         and max_output_tokens = None and bbox_scale = 1000]
      messages_no_cuda n2 n3 n4 n5 by blast
  from flags raised lookup_failed move_failed run_example show ?thesis by simp
qed

subsection \<open>C9: the batch is moved to the device "cuda"\<close>

text \<open>
  C9. Once the processor has returned the tokenized batch of the messages, the outcome of
  \<^verbatim>\<open>generate_hf\<close> is decided by \<^verbatim>\<open>inputs.to("cuda")\<close> on that batch: if the move raises, the
  call raises the same exception; otherwise \<^verbatim>\<open>model.generate\<close> runs on the moved batch, and
  the rows are trimmed by the moved batch's \<^verbatim>\<open>input_ids\<close>. The device is the literal
  \<^verbatim>\<open>"cuda"\<close>: \<^verbatim>\<open>settings.TORCH_DEVICE\<close> has no influence on the call, and neither has what
  \<^verbatim>\<open>inputs.to\<close> does for any other device. A call that returns has moved the batch built from
  its own messages to \<^verbatim>\<open>"cuda"\<close>, and on a machine where moving a batch to \<^verbatim>\<open>"cuda"\<close> raises
  (no CUDA accelerator), every call raises.
\<close>

theorem generate_hf_moves_batch_to_cuda:
  "generate_hf (g\<lparr>the_settings := (the_settings g)\<lparr>TORCH_DEVICE := device\<rparr>\<rparr>) batch m
       max_output_tokens bbox_scale =
     generate_hf g batch m max_output_tokens bbox_scale \<and>
   generate_hf
       (g\<lparr>inputs_to :=
            (\<lambda>inputs d. if d = ''cuda'' then inputs_to g inputs ''cuda'' else other inputs d)\<rparr>)
       batch m max_output_tokens bbox_scale =
     generate_hf g batch m max_output_tokens bbox_scale \<and>
   (\<forall>messages rendered image_inputs inputs0.
      comprehension (\<lambda>item. process_batch_element g item bbox_scale) batch = Inr messages \<longrightarrow>
      apply_chat_template m messages = Inr rendered \<longrightarrow>
      process_vision_info g messages = Inr image_inputs \<longrightarrow>
      processor_call m rendered image_inputs = Inr inputs0 \<longrightarrow>
      generate_hf g batch m max_output_tokens bbox_scale =
        (case inputs_to g inputs0 ''cuda'' of
           Inl e \<Rightarrow> Inl e
         | Inr inputs \<Rightarrow>
             (case generate m inputs
                     (case max_output_tokens of
                        None \<Rightarrow> MAX_OUTPUT_TOKENS (the_settings g)
                      | Some n \<Rightarrow> n) of
                Inl e \<Rightarrow> Inl e
              | Inr generated_ids \<Rightarrow>
                  (case batch_decode m (trim_generated (input_ids inputs) generated_ids) of
                     Inl e \<Rightarrow> Inl e
                   | Inr output_text \<Rightarrow>
                       Inr (wrap_results output_text
                              (trim_generated (input_ids inputs) generated_ids)))))) \<and>
   (\<forall>results. generate_hf g batch m max_output_tokens bbox_scale = Inr results \<longrightarrow>
      (\<exists>messages rendered image_inputs inputs0 inputs generated_ids.
         comprehension (\<lambda>item. process_batch_element g item bbox_scale) batch = Inr messages \<and>
         apply_chat_template m messages = Inr rendered \<and>
         process_vision_info g messages = Inr image_inputs \<and>
         processor_call m rendered image_inputs = Inr inputs0 \<and>
         inputs_to g inputs0 ''cuda'' = Inr inputs \<and>
         generate m inputs
           (case max_output_tokens of
              None \<Rightarrow> MAX_OUTPUT_TOKENS (the_settings g)
            | Some n \<Rightarrow> n) = Inr generated_ids)) \<and>
   ((\<forall>inputs. isl (inputs_to g inputs ''cuda'')) \<longrightarrow>
      isl (generate_hf g batch m max_output_tokens bbox_scale))"
proof (intro conjI impI allI)
  fix messages rendered image_inputs inputs0
  assume "comprehension (\<lambda>item. process_batch_element g item bbox_scale) batch = Inr messages"
    "apply_chat_template m messages = Inr rendered"
    "process_vision_info g messages = Inr image_inputs"
    "processor_call m rendered image_inputs = Inr inputs0"
  then show "generate_hf g batch m max_output_tokens bbox_scale =
        (case inputs_to g inputs0 ''cuda'' of
           Inl e \<Rightarrow> Inl e
         | Inr inputs \<Rightarrow>
             (case generate m inputs
                     (case max_output_tokens of
                        None \<Rightarrow> MAX_OUTPUT_TOKENS (the_settings g)
                      | Some n \<Rightarrow> n) of
                Inl e \<Rightarrow> Inl e
              | Inr generated_ids \<Rightarrow>
                  (case batch_decode m (trim_generated (input_ids inputs) generated_ids) of
                     Inl e \<Rightarrow> Inl e
                   | Inr output_text \<Rightarrow>
                       Inr (wrap_results output_text
                              (trim_generated (input_ids inputs) generated_ids)))))"
    by (rule generate_hf_after_processor)
next
  fix results
  assume "generate_hf g batch m max_output_tokens bbox_scale = Inr results"
  then show "\<exists>messages rendered image_inputs inputs0 inputs generated_ids.
         comprehension (\<lambda>item. process_batch_element g item bbox_scale) batch = Inr messages \<and>
         apply_chat_template m messages = Inr rendered \<and>
         process_vision_info g messages = Inr image_inputs \<and>
         processor_call m rendered image_inputs = Inr inputs0 \<and>
         inputs_to g inputs0 ''cuda'' = Inr inputs \<and>
         generate m inputs
           (case max_output_tokens of
              None \<Rightarrow> MAX_OUTPUT_TOKENS (the_settings g)
            | Some n \<Rightarrow> n) = Inr generated_ids"
    unfolding generate_hf_Inr_iff by blast
next
  show "generate_hf (g\<lparr>the_settings := (the_settings g)\<lparr>TORCH_DEVICE := device\<rparr>\<rparr>) batch m
       max_output_tokens bbox_scale =
     generate_hf g batch m max_output_tokens bbox_scale"
    by (simp add: generate_hf_def process_batch_element_settings cong: sum.case_cong option.case_cong)
  show "generate_hf
       (g\<lparr>inputs_to :=
            (\<lambda>inputs d. if d = ''cuda'' then inputs_to g inputs ''cuda'' else other inputs d)\<rparr>)
       batch m max_output_tokens bbox_scale =
     generate_hf g batch m max_output_tokens bbox_scale"
    by (simp add: generate_hf_def process_batch_element_inputs_to cong: sum.case_cong option.case_cong)
next
  assume no_cuda: "\<forall>inputs. isl (inputs_to g inputs ''cuda'')"
  show "isl (generate_hf g batch m max_output_tokens bbox_scale)"
  proof (rule ccontr)
    assume "\<not> isl (generate_hf g batch m max_output_tokens bbox_scale)"
    then obtain results where "generate_hf g batch m max_output_tokens bbox_scale = Inr results"
      by (cases "generate_hf g batch m max_output_tokens bbox_scale") auto
    then obtain inputs0 inputs where "inputs_to g inputs0 ''cuda'' = Inr inputs"
      unfolding generate_hf_Inr_iff by blast
    with no_cuda show False by (metis sum.disc(2))
  qed
qed

text \<open>
  The theorem on two machines whose settings pin the model to the CPU. On the first the
  processor builds the batch on the CPU and the model generates only from a batch on
  \<^verbatim>\<open>"cuda"\<close>: the call returns, so the batch was moved there. The second has no CUDA device:
  the call raises the exception of the move.
\<close>

theorem generate_hf_moves_batch_to_cuda_witness:
  "TORCH_DEVICE (the_settings tagging_globals) = Some ''cpu'' \<and>
   processor_call device_model [2, 2] 2 =
     Inr \<lparr>input_ids = [[1, 2], [1, 2]], tensors = ''cpu''\<rparr> \<and>
   inputs_to tagging_globals \<lparr>input_ids = [[1, 2], [1, 2]], tensors = ''cpu''\<rparr> ''cuda'' =
     Inr \<lparr>input_ids = [[1, 2], [1, 2]], tensors = ''cuda''\<rparr> \<and>
   generate device_model \<lparr>input_ids = [[1, 2], [1, 2]], tensors = ''cpu''\<rparr> 3 =
     Inl (Raised ''tensors on different devices'') \<and>
   generate_hf tagging_globals [item_explicit, item_template] device_model None 1000 =
     Inr [\<lparr>raw = ''aaa'', token_count = 3, error = False\<rparr>,
          \<lparr>raw = ''aaa'', token_count = 3, error = False\<rparr>] \<and>
   TORCH_DEVICE (the_settings no_cuda_globals) = Some ''cpu'' \<and>
   generate_hf no_cuda_globals [item_explicit, item_template] example_model None 1000 =
     Inl (Raised ''no CUDA'')"
proof -
  let ?batch = "[item_explicit, item_template]"
  let ?messages =
    "[\<lparr>role = ''user'', content = [ImageBlock \<lparr>width = 1536, height = 512, pixels = ()\<rparr>,
                                      TextBlock ''Describe this chart'']\<rparr>,
      \<lparr>role = ''user'', content = [ImageBlock \<lparr>width = 1536, height = 512, pixels = ()\<rparr>,
                                      TextBlock ''Boxes 0-1000.'']\<rparr>]"
  let ?cpu = "\<lparr>input_ids = [[1, 2], [1, 2]], tensors = ''cpu''\<rparr>"
  let ?cuda = "\<lparr>input_ids = [[1, 2], [1, 2]], tensors = ''cuda''\<rparr>"
  let ?inputs = "\<lparr>input_ids = [[1, 2], [1, 2]], tensors = ()\<rparr> :: unit inputs"
  have d: "TORCH_DEVICE (the_settings tagging_globals) = Some ''cpu''"
    "TORCH_DEVICE (the_settings no_cuda_globals) = Some ''cpu''"
    by (simp_all add: tagging_globals_def no_cuda_globals_def example_globals_def
        example_settings_def)
  have t2: "apply_chat_template device_model ?messages = Inr [2, 2]"
    by (simp add: device_model_def)
  have t3: "process_vision_info tagging_globals ?messages = Inr 2"
    by (simp add: tagging_globals_def)
  have t4: "processor_call device_model [2, 2] 2 = Inr ?cpu"
    by (simp add: device_model_def)
  have t5: "inputs_to tagging_globals ?cpu ''cuda'' = Inr ?cuda"
    by (simp add: tagging_globals_def)
  have t6: "generate device_model ?cpu 3 = Inl (Raised ''tensors on different devices'')"
    by (simp add: device_model_def)
  have t7: "generate device_model ?cuda
      (case None of None \<Rightarrow> MAX_OUTPUT_TOKENS (the_settings tagging_globals) | Some n \<Rightarrow> n) =
      Inr [[1, 2, 7, 7, 7], [1, 2, 7, 7, 7]]"
    by (simp add: device_model_def tagging_globals_def example_settings_def eval_nat_numeral)
  have t8: "batch_decode device_model
      (trim_generated (input_ids ?cuda) [[1, 2, 7, 7, 7], [1, 2, 7, 7, 7]]) = Inr [''aaa'', ''aaa'']"
    by (simp add: device_model_def trim_generated_def eval_nat_numeral)
  have t9: "wrap_results [''aaa'', ''aaa'']
      (trim_generated (input_ids ?cuda) [[1, 2, 7, 7, 7], [1, 2, 7, 7, 7]]) =
      [\<lparr>raw = ''aaa'', token_count = 3, error = False\<rparr>,
       \<lparr>raw = ''aaa'', token_count = 3, error = False\<rparr>]"
    by (simp add: trim_generated_def wrap_results_def)
  from generate_hf_moves_batch_to_cuda
    [where g = tagging_globals and batch = ?batch and m = device_model
       and max_output_tokens = None and bbox_scale = 1000]
    messages_tagging t2 t3 t4
  have "generate_hf tagging_globals ?batch device_model None 1000 =
      (case inputs_to tagging_globals ?cpu ''cuda'' of
         Inl e \<Rightarrow> Inl e
       | Inr inputs \<Rightarrow>
           (case generate device_model inputs
                   (case None of
                      None \<Rightarrow> MAX_OUTPUT_TOKENS (the_settings tagging_globals)
                    | Some n \<Rightarrow> n) of
              Inl e \<Rightarrow> Inl e
            | Inr generated_ids \<Rightarrow>
                (case batch_decode device_model (trim_generated (input_ids inputs) generated_ids) of
                   Inl e \<Rightarrow> Inl e
                 | Inr output_text \<Rightarrow>
                     Inr (wrap_results output_text
                            (trim_generated (input_ids inputs) generated_ids)))))"
    by blast
  then have moved: "generate_hf tagging_globals ?batch device_model None 1000 =
      Inr [\<lparr>raw = ''aaa'', token_count = 3, error = False\<rparr>,
           \<lparr>raw = ''aaa'', token_count = 3, error = False\<rparr>]"
    by (simp only: t5 t7 t8 t9 sum.case)
  have n2: "apply_chat_template example_model ?messages = Inr [2, 2]"
    by (simp add: example_model_def)
  have n3: "process_vision_info no_cuda_globals ?messages = Inr 2"
    by (simp add: no_cuda_globals_def example_globals_def)
  have n4: "processor_call example_model [2, 2] 2 = Inr ?inputs"
    by (simp add: example_model_def)
  have n5: "inputs_to no_cuda_globals ?inputs ''cuda'' = Inl (Raised ''no CUDA'')"
    by (simp add: no_cuda_globals_def)
  from generate_hf_moves_batch_to_cuda
    [where g = no_cuda_globals and batch = ?batch and m = example_model
       and max_output_tokens = None and bbox_scale = 1000]
    messages_no_cuda n2 n3 n4
  have "generate_hf no_cuda_globals ?batch example_model None 1000 =
      (case inputs_to no_cuda_globals ?inputs ''cuda'' of
         Inl e \<Rightarrow> Inl e
       | Inr inputs \<Rightarrow>
           (case generate example_model inputs
                   (case None of
                      None \<Rightarrow> MAX_OUTPUT_TOKENS (the_settings no_cuda_globals)
                    | Some n \<Rightarrow> n) of
              Inl e \<Rightarrow> Inl e
            | Inr generated_ids \<Rightarrow>
                (case batch_decode example_model (trim_generated (input_ids inputs) generated_ids) of
                   Inl e \<Rightarrow> Inl e
                 | Inr output_text \<Rightarrow>
                     Inr (wrap_results output_text
                            (trim_generated (input_ids inputs) generated_ids)))))"
    by blast
  then have failed: "generate_hf no_cuda_globals ?batch example_model None 1000 =
      Inl (Raised ''no CUDA'')"
    by (simp only: n5 sum.case)
  from d t4 t5 t6 moved failed show ?thesis by simp
qed

subsection \<open>C10: an unregistered prompt type\<close>

text \<open>
  C10. When an item of the batch has no prompt (absent or empty) and its \<^verbatim>\<open>prompt_type\<close> is
  not a key of the prompt registry, \<^verbatim>\<open>generate_hf\<close> raises the \<^verbatim>\<open>KeyError\<close> of such an item
  and returns no result. The exception comes from the preprocessing: it is the same for every
  model handle, token budget and behaviour of the library calls, none of which is reached.
\<close>

theorem generate_hf_unregistered_prompt_type:
  assumes "item \<in> set batch"
    and "\<not> truthy (prompt item)"
    and "PROMPT_MAPPING g (prompt_type item) = None"
  shows "\<exists>bad \<in> set batch.
           \<not> truthy (prompt bad) \<and> PROMPT_MAPPING g (prompt_type bad) = None \<and>
           (\<forall>m max_output_tokens.
              generate_hf g batch m max_output_tokens bbox_scale =
                Inl (KeyError (prompt_type bad))) \<and>
           (\<forall>m max_output_tokens vision move.
              generate_hf (g\<lparr>process_vision_info := vision, inputs_to := move\<rparr>) batch m
                  max_output_tokens bbox_scale =
                Inl (KeyError (prompt_type bad)))"
proof -
  let ?f = "\<lambda>item. process_batch_element g item bbox_scale"
  have "?f item = Inl (KeyError (prompt_type item))"
    using assms(2,3) by (simp add: process_batch_element_Inl_iff)
  from comprehension_Inl_I [of item batch ?f, OF assms(1) this]
  obtain e where e: "comprehension ?f batch = Inl e" by (rule exE)
  from comprehension_Inl_D [OF e]
  obtain bad where bad: "bad \<in> set batch" "?f bad = Inl e" by (rule bexE)
  from bad(2) have k: "\<not> truthy (prompt bad)" "PROMPT_MAPPING g (prompt_type bad) = None"
    "e = KeyError (prompt_type bad)"
    by (simp_all add: process_batch_element_Inl_iff)
  have a: "generate_hf g batch m mot bbox_scale = Inl (KeyError (prompt_type bad))" for m mot
    using generate_hf_preprocessing_error [OF e, of m mot] k(3) by simp
  have b: "generate_hf (g\<lparr>process_vision_info := vision, inputs_to := move\<rparr>) batch m mot
      bbox_scale = Inl (KeyError (prompt_type bad))" for m mot vision move
  proof -
    have "comprehension
            (\<lambda>item. process_batch_element (g\<lparr>process_vision_info := vision, inputs_to := move\<rparr>)
               item bbox_scale) batch = Inl e"
      using e by (simp only: process_batch_element_library)
    from generate_hf_preprocessing_error [OF this, of m mot] k(3) show ?thesis by simp
  qed
  show ?thesis
  proof (rule bexI [of _ bad], intro conjI allI)
    show "\<not> truthy (prompt bad)" by (rule k(1))
    show "PROMPT_MAPPING g (prompt_type bad) = None" by (rule k(2))
    show "generate_hf g batch m mot bbox_scale = Inl (KeyError (prompt_type bad))" for m mot
      by (rule a)
    show "generate_hf (g\<lparr>process_vision_info := vision, inputs_to := move\<rparr>) batch m mot
        bbox_scale = Inl (KeyError (prompt_type bad))" for m mot vision move
      by (rule b)
    show "bad \<in> set batch" by (rule bad(1))
  qed
qed

text \<open>
  The theorem on a batch whose second item has no prompt and the unregistered type
  \<^verbatim>\<open>"missing"\<close>.
\<close>

theorem generate_hf_unregistered_prompt_type_witness:
  "item_unregistered \<in> set [item_explicit, item_unregistered] \<and>
   \<not> truthy (prompt item_unregistered) \<and>
   PROMPT_MAPPING example_globals (prompt_type item_unregistered) = None \<and>
   generate_hf example_globals [item_explicit, item_unregistered] example_model None 1000 =
     Inl (KeyError ''missing'')"
proof -
  have h1: "item_unregistered \<in> set [item_explicit, item_unregistered]" by simp
  have h2: "\<not> truthy (prompt item_unregistered)" by (simp add: item_unregistered_def)
  have h3: "PROMPT_MAPPING example_globals (prompt_type item_unregistered) = None"
    by (simp add: example_globals_def item_unregistered_def)
  from generate_hf_unregistered_prompt_type [OF h1 h2 h3, of 1000]
  have "\<exists>bad \<in> set [item_explicit, item_unregistered].
          \<not> truthy (prompt bad) \<and> PROMPT_MAPPING example_globals (prompt_type bad) = None"
    by (elim bexE conjE bexI [rotated]) simp
  with h1 h2 h3 run_unregistered show ?thesis by simp
qed

end
